theory Spec2Isabelle
  imports Main "HOL-Library.Word"
begin

unbundle bit_operations_syntax

section \<open>BSON documents\<close>

text \<open>
  A BSON document is an ordered sequence of keyed values; keys may repeat, and an array
  is a document whose keys are decimal positions. The BSON library itself is not part of
  the sources of the write-command core: the operations below model the iterator and
  append calls that \<^verbatim>\<open>mongoc-write-command.c\<close> makes, on the value types that file inspects
  (floating-point and binary values are left out).
\<close>

datatype bson_value =
    BInt32 "32 word"
  | BInt64 "64 word"
  | BUtf8 string
  | BBool bool
  | BNull
  | BOid nat
  | BDocument "(string \<times> bson_value) list"
  | BArray "(string \<times> bson_value) list"

type_synonym bson = "(string \<times> bson_value) list"

text \<open>\<^verbatim>\<open>bson_iter_init_find\<close>: the value of the first element with the given key.\<close>

fun bson_iter_init_find :: "bson \<Rightarrow> string \<Rightarrow> bson_value option" where
  "bson_iter_init_find [] key = None"
| "bson_iter_init_find ((k, v) # rest) key =
     (if k = key then Some v else bson_iter_init_find rest key)"

text \<open>The typed readers return a default when the element has another type.\<close>

definition bson_iter_int32 :: "bson_value \<Rightarrow> 32 word" where
  "bson_iter_int32 v = (case v of BInt32 w \<Rightarrow> w | _ \<Rightarrow> 0)"

definition bson_iter_bool :: "bson_value \<Rightarrow> bool" where
  "bson_iter_bool v = (case v of BBool b \<Rightarrow> b | _ \<Rightarrow> False)"

definition bson_iter_utf8 :: "bson_value \<Rightarrow> string option" where
  "bson_iter_utf8 v = (case v of BUtf8 s \<Rightarrow> Some s | _ \<Rightarrow> None)"

definition bson_iter_as_bool :: "bson_value \<Rightarrow> bool" where
  "bson_iter_as_bool v =
     (case v of BBool b \<Rightarrow> b | BInt32 w \<Rightarrow> w \<noteq> 0 | BInt64 w \<Rightarrow> w \<noteq> 0
              | BNull \<Rightarrow> False | _ \<Rightarrow> True)"

definition bson_empty0 :: "bson \<Rightarrow> bool" where
  "bson_empty0 b = (b = [])"

definition bson_count_keys :: "bson \<Rightarrow> 32 word" where
  "bson_count_keys b = of_nat (length b)"

text \<open>A C string ends at its first NUL byte.\<close>

definition c_str :: "string \<Rightarrow> string" where
  "c_str s = takeWhile (\<lambda>c. c \<noteq> CHR 0x00) s"

text \<open>\<^verbatim>\<open>bson_uint32_to_string\<close>, \<^verbatim>\<open>%u\<close> and \<^verbatim>\<open>%d\<close>: decimal digits.\<close>

definition digit_char :: "nat \<Rightarrow> char" where
  "digit_char d = ''0123456789'' ! (d mod 10)"

fun dec_string :: "nat \<Rightarrow> string" where
  "dec_string n = (if n < 10 then [digit_char n] else dec_string (n div 10) @ [digit_char n])"

declare dec_string.simps [simp del]

definition bson_uint32_to_string :: "32 word \<Rightarrow> string" where
  "bson_uint32_to_string w = dec_string (unat w)"

definition signed_dec_string :: "32 word \<Rightarrow> string" where
  "signed_dec_string w =
     (if w <s 0 then CHR ''-'' # dec_string (nat (- sint w)) else dec_string (unat w))"

text \<open>The encoded length of a value and of a document, in bytes.\<close>

fun value_len :: "bson_value \<Rightarrow> nat" where
  "value_len (BInt32 w) = 4"
| "value_len (BInt64 w) = 8"
| "value_len (BUtf8 s) = 4 + length s + 1"
| "value_len (BBool b) = 1"
| "value_len BNull = 0"
| "value_len (BOid oid) = 12"
| "value_len (BDocument d) = 5 + sum_list (map (\<lambda>p. 2 + length (fst p) + value_len (snd p)) d)"
| "value_len (BArray d) = 5 + sum_list (map (\<lambda>p. 2 + length (fst p) + value_len (snd p)) d)"

definition bson_len :: "bson \<Rightarrow> 32 word" where
  "bson_len d = of_nat (value_len (BDocument d))"

section \<open>Errors\<close>

text \<open>
  Modelled from the spec: the error domains and the named error codes come from
  \<^verbatim>\<open>mongoc-error.h\<close>, which is not among the sources; they are kept symbolic. A code
  that is a number in the source (a server code, or the literal 2) is \<open>CODE\<close>. The stream
  domain and its socket code stand for the errors that the transport records.
\<close>

datatype error_domain =
    DOMAIN_UNSET
  | MONGOC_ERROR_STREAM
  | MONGOC_ERROR_BSON
  | MONGOC_ERROR_COLLECTION
  | MONGOC_ERROR_COMMAND

datatype error_code =
    CODE "32 word"
  | MONGOC_ERROR_STREAM_SOCKET
  | MONGOC_ERROR_BSON_INVALID
  | MONGOC_ERROR_COLLECTION_DELETE_FAILED
  | MONGOC_ERROR_COLLECTION_INSERT_FAILED
  | MONGOC_ERROR_COLLECTION_UPDATE_FAILED

record bson_error =
  domain :: error_domain
  code :: error_code
  message :: string

definition error_unset :: bson_error where
  "error_unset = \<lparr>domain = DOMAIN_UNSET, code = CODE 0, message = ''''\<rparr>"

text \<open>
  \<^verbatim>\<open>bson_set_error\<close> formats into the record's message buffer of 504 bytes, so at most
  503 bytes of the text are kept.
\<close>

definition bson_set_error :: "error_domain \<Rightarrow> error_code \<Rightarrow> string \<Rightarrow> bson_error" where
  "bson_set_error d c msg = \<lparr>domain = d, code = c, message = take 503 msg\<rparr>"

section \<open>The command buffer and the result accumulator\<close>

datatype mongoc_write_command_type =
    MONGOC_WRITE_COMMAND_DELETE
  | MONGOC_WRITE_COMMAND_INSERT
  | MONGOC_WRITE_COMMAND_UPDATE

record mongoc_write_command_t =
  cmd_type :: mongoc_write_command_type
  documents :: bson
  n_documents :: "32 word"
  ordered :: bool
  allow_bulk_op_insert :: bool
  multi :: bool

record mongoc_write_result_t =
  omit_nModified :: bool
  nInserted :: "32 word"
  nMatched :: "32 word"
  nModified :: "32 word"
  nRemoved :: "32 word"
  nUpserted :: "32 word"
  upsert_append_count :: "32 word"
  upserted :: bson
  writeConcernError :: bson
  writeErrors :: bson
  error :: bson_error
  failed :: bool

text \<open>\<^verbatim>\<open>_mongoc_write_result_init\<close>: all fields zero, the three documents empty.\<close>

definition mongoc_write_result_init :: mongoc_write_result_t where
  "mongoc_write_result_init =
     \<lparr>omit_nModified = False, nInserted = 0, nMatched = 0, nModified = 0, nRemoved = 0,
      nUpserted = 0, upsert_append_count = 0, upserted = [], writeConcernError = [],
      writeErrors = [], error = error_unset, failed = False\<rparr>"

section \<open>Merging replies\<close>

text \<open>\<^verbatim>\<open>_mongoc_write_result_append_upsert\<close>\<close>

definition mongoc_write_result_append_upsert ::
  "mongoc_write_result_t \<Rightarrow> 32 word \<Rightarrow> bson_value \<Rightarrow> mongoc_write_result_t" where
  "mongoc_write_result_append_upsert result idx v =
     result\<lparr>upserted := upserted result @
               [(bson_uint32_to_string (upsert_append_count result),
                 BDocument [(''index'', BInt32 idx), (''_id'', v)])],
            upsert_append_count := upsert_append_count result + 1\<rparr>"

text \<open>
  \<^verbatim>\<open>_mongoc_write_result_merge_arrays\<close>. The inner loop copies one element document,
  replacing each \<^verbatim>\<open>index\<close> field by its int32 reading plus the offset; the outer loop
  appends every document element of the array to \<open>dest\<close> under the next free position.
  The function asserts that the iterator holds an array; both callers establish that,
  and the model takes the array's elements. It returns the new \<open>dest\<close> and the count.
\<close>

fun merge_arrays_child :: "32 word \<Rightarrow> bson \<Rightarrow> bson" where
  "merge_arrays_child offset [] = []"
| "merge_arrays_child offset ((k, v) # citer) =
     (if k = ''index''
      then (''index'', BInt32 (bson_iter_int32 v + offset)) # merge_arrays_child offset citer
      else (k, v) # merge_arrays_child offset citer)"

fun merge_arrays_loop ::
  "32 word \<Rightarrow> bson \<Rightarrow> 32 word \<Rightarrow> bson \<Rightarrow> 32 word \<Rightarrow> bson \<times> 32 word" where
  "merge_arrays_loop offset [] aridx dest count = (dest, count)"
| "merge_arrays_loop offset ((k, v) # ar) aridx dest count =
     (case v of
        BDocument d \<Rightarrow>
          merge_arrays_loop offset ar (aridx + 1)
            (dest @ [(bson_uint32_to_string aridx, BDocument (merge_arrays_child offset d))])
            (count + 1)
      | _ \<Rightarrow> merge_arrays_loop offset ar aridx dest count)"

definition mongoc_write_result_merge_arrays ::
  "32 word \<Rightarrow> bson \<Rightarrow> bson \<Rightarrow> bson \<times> 32 word" where
  "mongoc_write_result_merge_arrays offset dest ar =
     merge_arrays_loop offset ar (bson_count_keys dest) dest 0"

text \<open>
  \<^verbatim>\<open>_mongoc_write_result_merge_legacy\<close>. The loop over an \<^verbatim>\<open>upserted\<close> array numbers
  the elements that carry an \<^verbatim>\<open>_id\<close> with its own counter \<open>upsert_idx\<close>.
\<close>

fun merge_legacy_upserted ::
  "32 word \<Rightarrow> bson \<Rightarrow> 32 word \<Rightarrow> mongoc_write_result_t \<Rightarrow> mongoc_write_result_t" where
  "merge_legacy_upserted offset [] upsert_idx result = result"
| "merge_legacy_upserted offset ((k, v) # ar) upsert_idx result =
     (case v of
        BDocument d \<Rightarrow>
          (case bson_iter_init_find d ''_id'' of
             Some val \<Rightarrow>
               merge_legacy_upserted offset ar (upsert_idx + 1)
                 (mongoc_write_result_append_upsert result (offset + upsert_idx) val)
           | None \<Rightarrow> merge_legacy_upserted offset ar upsert_idx result)
      | _ \<Rightarrow> merge_legacy_upserted offset ar upsert_idx result)"

definition legacy_n :: "bson \<Rightarrow> 32 word" where
  "legacy_n reply = (case bson_iter_init_find reply ''n'' of Some (BInt32 w) \<Rightarrow> w | _ \<Rightarrow> 0)"

definition legacy_err :: "bson \<Rightarrow> string option" where
  "legacy_err reply =
     (case bson_iter_init_find reply ''err'' of Some (BUtf8 s) \<Rightarrow> Some s | _ \<Rightarrow> None)"

definition legacy_code :: "bson \<Rightarrow> 32 word" where
  "legacy_code reply =
     (case bson_iter_init_find reply ''code'' of Some (BInt32 w) \<Rightarrow> w | _ \<Rightarrow> 0)"

definition merge_legacy_error ::
  "mongoc_write_result_t \<Rightarrow> bson \<Rightarrow> 32 word \<Rightarrow> mongoc_write_result_t" where
  "merge_legacy_error result reply offset =
     (case legacy_err reply of
        None \<Rightarrow> result
      | Some err \<Rightarrow>
          if legacy_code reply = 0 then result
          else result
            \<lparr>error := bson_set_error MONGOC_ERROR_COLLECTION (CODE (legacy_code reply)) (c_str err),
             failed := True,
             writeErrors := fst (mongoc_write_result_merge_arrays offset (writeErrors result)
               [(''0'', BDocument [(''index'', BInt32 0), (''code'', BInt32 (legacy_code reply)),
                                   (''errmsg'', BUtf8 (c_str err))])])\<rparr>)"

definition merge_legacy_counts ::
  "mongoc_write_result_t \<Rightarrow> mongoc_write_command_t \<Rightarrow> bson \<Rightarrow> 32 word \<Rightarrow> mongoc_write_result_t" where
  "merge_legacy_counts result command reply offset =
     (let n = legacy_n reply in
      case cmd_type command of
        MONGOC_WRITE_COMMAND_INSERT \<Rightarrow>
          if n \<noteq> 0 then result\<lparr>nInserted := nInserted result + n\<rparr> else result
      | MONGOC_WRITE_COMMAND_DELETE \<Rightarrow> result\<lparr>nRemoved := nRemoved result + n\<rparr>
      | MONGOC_WRITE_COMMAND_UPDATE \<Rightarrow>
          (case bson_iter_init_find reply ''upserted'' of
             Some (BArray ar) \<Rightarrow>
               merge_legacy_upserted offset ar 0 (result\<lparr>nUpserted := nUpserted result + n\<rparr>)
           | Some v \<Rightarrow>
               mongoc_write_result_append_upsert
                 (result\<lparr>nUpserted := nUpserted result + n\<rparr>) offset v
           | None \<Rightarrow>
               if n = 1 \<and> bson_iter_init_find reply ''updatedExisting'' = Some (BBool False)
               then result\<lparr>nUpserted := nUpserted result + n\<rparr>
               else result\<lparr>nMatched := nMatched result + n\<rparr>))"

definition mongoc_write_result_merge_legacy ::
  "mongoc_write_result_t \<Rightarrow> mongoc_write_command_t \<Rightarrow> bson \<Rightarrow> 32 word \<Rightarrow> mongoc_write_result_t" where
  "mongoc_write_result_merge_legacy result command reply offset =
     (merge_legacy_counts (merge_legacy_error result reply offset) command reply offset)
       \<lparr>omit_nModified := True\<rparr>"

text \<open>
  \<^verbatim>\<open>_mongoc_write_result_merge\<close>. The loop over the reply's \<^verbatim>\<open>upserted\<close> array takes
  the elements that are documents with an int32 \<^verbatim>\<open>index\<close> and an \<^verbatim>\<open>_id\<close>.
\<close>

fun merge_upserted ::
  "32 word \<Rightarrow> bson \<Rightarrow> 32 word \<Rightarrow> mongoc_write_result_t \<Rightarrow> mongoc_write_result_t \<times> 32 word" where
  "merge_upserted offset [] n_upserted result = (result, n_upserted)"
| "merge_upserted offset ((k, v) # ar) n_upserted result =
     (case v of
        BDocument d \<Rightarrow>
          (case bson_iter_init_find d ''index'' of
             Some (BInt32 server_index) \<Rightarrow>
               (case bson_iter_init_find d ''_id'' of
                  Some val \<Rightarrow>
                    merge_upserted offset ar (n_upserted + 1)
                      (mongoc_write_result_append_upsert result (offset + server_index) val)
                | None \<Rightarrow> merge_upserted offset ar n_upserted result)
           | _ \<Rightarrow> merge_upserted offset ar n_upserted result)
      | _ \<Rightarrow> merge_upserted offset ar n_upserted result)"

definition command_affected :: "bson \<Rightarrow> 32 word" where
  "command_affected reply =
     (case bson_iter_init_find reply ''n'' of Some (BInt32 w) \<Rightarrow> w | _ \<Rightarrow> 0)"

definition merge_failed :: "mongoc_write_result_t \<Rightarrow> bson \<Rightarrow> mongoc_write_result_t" where
  "merge_failed result reply =
     (case bson_iter_init_find reply ''writeErrors'' of
        Some (BArray (e # es)) \<Rightarrow> result\<lparr>failed := True\<rparr>
      | _ \<Rightarrow> result)"

definition BSON_MAX :: "32 word \<Rightarrow> 32 word \<Rightarrow> 32 word" where
  "BSON_MAX a b = (if b <s a then a else b)"

definition merge_update :: "mongoc_write_result_t \<Rightarrow> bson \<Rightarrow> 32 word \<Rightarrow> mongoc_write_result_t" where
  "merge_update result reply offset =
     (let affected = command_affected reply;
          r1 = (case bson_iter_init_find reply ''upserted'' of
                  Some v \<Rightarrow>
                    (let (r, n_upserted) =
                       (case v of BArray ar \<Rightarrow> merge_upserted offset ar 0 result
                                | _ \<Rightarrow> (result, 0))
                     in r\<lparr>nUpserted := nUpserted r + n_upserted,
                           nMatched := nMatched r + BSON_MAX 0 (affected - n_upserted)\<rparr>)
                | None \<Rightarrow> result\<lparr>nMatched := nMatched result + affected\<rparr>)
      in case bson_iter_init_find reply ''nModified'' of
           Some (BInt32 w) \<Rightarrow> r1\<lparr>nModified := nModified r1 + w\<rparr>
         | _ \<Rightarrow> r1\<lparr>omit_nModified := True\<rparr>)"

definition merge_counts ::
  "mongoc_write_result_t \<Rightarrow> mongoc_write_command_t \<Rightarrow> bson \<Rightarrow> 32 word \<Rightarrow> mongoc_write_result_t" where
  "merge_counts result command reply offset =
     (case cmd_type command of
        MONGOC_WRITE_COMMAND_INSERT \<Rightarrow>
          result\<lparr>nInserted := nInserted result + command_affected reply\<rparr>
      | MONGOC_WRITE_COMMAND_DELETE \<Rightarrow>
          result\<lparr>nRemoved := nRemoved result + command_affected reply\<rparr>
      | MONGOC_WRITE_COMMAND_UPDATE \<Rightarrow> merge_update result reply offset)"

definition merge_writeErrors :: "mongoc_write_result_t \<Rightarrow> bson \<Rightarrow> 32 word \<Rightarrow> mongoc_write_result_t" where
  "merge_writeErrors result reply offset =
     (case bson_iter_init_find reply ''writeErrors'' of
        Some (BArray ar) \<Rightarrow>
          result\<lparr>writeErrors :=
            fst (mongoc_write_result_merge_arrays offset (writeErrors result) ar)\<rparr>
      | _ \<Rightarrow> result)"

definition merge_writeConcernError :: "mongoc_write_result_t \<Rightarrow> bson \<Rightarrow> mongoc_write_result_t" where
  "merge_writeConcernError result reply =
     (case bson_iter_init_find reply ''writeConcernError'' of
        Some (BDocument write_concern_error) \<Rightarrow>
          result\<lparr>writeConcernError := writeConcernError result @ write_concern_error\<rparr>
      | _ \<Rightarrow> result)"

definition mongoc_write_result_merge ::
  "mongoc_write_result_t \<Rightarrow> mongoc_write_command_t \<Rightarrow> bson \<Rightarrow> 32 word \<Rightarrow> mongoc_write_result_t" where
  "mongoc_write_result_merge result command reply offset =
     merge_writeConcernError
       (merge_writeErrors
          (merge_counts (merge_failed result reply) command reply offset) reply offset)
       reply"

section \<open>Finalization\<close>

text \<open>
  \<^verbatim>\<open>_mongoc_write_result_complete\<close>. The output document and the caller's error record
  are optional (a NULL pointer is \<open>None\<close>); the function returns its boolean, the
  document with the result fields appended, and the caller's error record.
\<close>

fun complete_scan :: "bson \<Rightarrow> string option \<Rightarrow> 32 word \<Rightarrow> string option \<times> 32 word" where
  "complete_scan [] err c = (err, c)"
| "complete_scan ((k, v) # citer) err c =
     (if k = ''errmsg'' then complete_scan citer (bson_iter_utf8 v) c
      else if k = ''code'' then complete_scan citer err (bson_iter_int32 v)
      else complete_scan citer err c)"

definition complete_fields :: "mongoc_write_result_t \<Rightarrow> bson" where
  "complete_fields result =
     [(''nInserted'', BInt32 (nInserted result)), (''nMatched'', BInt32 (nMatched result))]
     @ (if \<not> omit_nModified result then [(''nModified'', BInt32 (nModified result))] else [])
     @ [(''nRemoved'', BInt32 (nRemoved result)), (''nUpserted'', BInt32 (nUpserted result))]
     @ (if \<not> bson_empty0 (upserted result) then [(''upserted'', BArray (upserted result))] else [])
     @ [(''writeErrors'', BArray (writeErrors result))]
     @ (if \<not> bson_empty0 (writeConcernError result)
        then [(''writeConcernError'', BDocument (writeConcernError result))] else [])"

definition complete_error :: "mongoc_write_result_t \<Rightarrow> bool \<Rightarrow> bson_error option \<Rightarrow> bson_error option" where
  "complete_error result ret error0 =
     (let error1 = (case error0 of None \<Rightarrow> None | Some e \<Rightarrow> Some (error result))
      in if \<not> ret \<and> \<not> bson_empty0 (writeErrors result)
         then (case writeErrors result of
                 (k, BDocument d) # rest \<Rightarrow>
                   (case complete_scan d None 0 of
                      (Some err, c) \<Rightarrow>
                        if c \<noteq> 0
                        then (case error1 of
                                None \<Rightarrow> None
                              | Some e \<Rightarrow> Some (bson_set_error MONGOC_ERROR_COMMAND (CODE c) (c_str err)))
                        else error1
                    | (None, c) \<Rightarrow> error1)
               | _ \<Rightarrow> error1)
         else error1)"

definition mongoc_write_result_complete ::
  "mongoc_write_result_t \<Rightarrow> bson option \<Rightarrow> bson_error option \<Rightarrow> bool \<times> bson option \<times> bson_error option" where
  "mongoc_write_result_complete result bson error0 =
     (let ret = (\<not> failed result \<and> bson_empty0 (writeConcernError result)
                 \<and> bson_empty0 (writeErrors result))
      in (ret,
          (case bson of None \<Rightarrow> None | Some b \<Rightarrow> Some (b @ complete_fields result)),
          complete_error result ret error0))"

section \<open>The command buffer\<close>

text \<open>
  \<^verbatim>\<open>_mongoc_write_command_insert_append\<close>. \<^verbatim>\<open>bson_oid_init\<close> belongs to the BSON library:
  the model takes it as a parameter \<open>oid_init\<close>, the object id produced by the \<open>seq\<close>-th
  call, and threads the number of calls made. The function asserts that the buffer is an
  insert buffer; a failed assertion is \<open>None\<close>. Every document of the model has a length
  of at least 5, the other assertion of the loop. The key of an entry is the position of
  the document in this call (the loop counter \<open>i\<close>).
\<close>

fun insert_append_loop ::
  "(nat \<Rightarrow> nat) \<Rightarrow> bson list \<Rightarrow> 32 word \<Rightarrow> bson \<Rightarrow> nat \<Rightarrow> bson \<times> nat" where
  "insert_append_loop oid_init [] i docs seq = (docs, seq)"
| "insert_append_loop oid_init (d # ds) i docs seq =
     (if bson_iter_init_find d ''_id'' = None
      then insert_append_loop oid_init ds (i + 1)
             (docs @ [(bson_uint32_to_string i, BDocument ((''_id'', BOid (oid_init seq)) # d))])
             (Suc seq)
      else insert_append_loop oid_init ds (i + 1)
             (docs @ [(bson_uint32_to_string i, BDocument d)]) seq)"

definition mongoc_write_command_insert_append ::
  "(nat \<Rightarrow> nat) \<Rightarrow> mongoc_write_command_t \<Rightarrow> bson list \<Rightarrow> nat
     \<Rightarrow> (mongoc_write_command_t \<times> nat) option" where
  "mongoc_write_command_insert_append oid_init command ds seq =
     (if cmd_type command \<noteq> MONGOC_WRITE_COMMAND_INSERT then None
      else (let (docs, seq') = insert_append_loop oid_init ds 0 (documents command) seq
            in Some (command\<lparr>documents := docs,
                             n_documents := n_documents command + of_nat (length ds)\<rparr>, seq')))"

section \<open>The size estimator\<close>

text \<open>
  \<^verbatim>\<open>_mongoc_write_command_will_overflow\<close>. The lengths and the count are unsigned 32-bit
  values and the two limits signed ones; C compares a signed with an unsigned operand as
  unsigned, which is the order \<open><\<close> of words, and \<open><s\<close> is the signed order. The sums wrap
  around (also the signed \<open>max_bson_size + 16382\<close>, which C leaves undefined when it
  overflows). The function asserts that \<open>max_bson_size\<close> is not 0.
\<close>

definition mongoc_write_command_will_overflow ::
  "32 word \<Rightarrow> 32 word \<Rightarrow> 32 word \<Rightarrow> 32 word \<Rightarrow> 32 word \<Rightarrow> bool option" where
  "mongoc_write_command_will_overflow len_so_far document_len n_documents_written
       max_bson_size max_write_batch_size =
     (let max_cmd_size = max_bson_size + 16382 in
      if max_bson_size = 0 then None
      else if max_cmd_size < len_so_far + document_len then Some True
      else if 0 <s max_write_batch_size \<and> max_write_batch_size \<le> n_documents_written
      then Some True
      else Some False)"

section \<open>The transport and the executors' state\<close>

text \<open>
  The node's capabilities, as the \<^verbatim>\<open>mongoc_cluster_node_*\<close> calls report them (signed
  32-bit values), and the two things the executors ask of a write concern: whether it needs
  an acknowledgement, and its document.
\<close>

record cluster_node =
  min_wire_version :: "32 word"
  max_bson_obj_size :: "32 word"
  max_msg_size :: "32 word"
  max_write_batch_size :: "32 word"

record mongoc_write_concern_t =
  needs_gle :: bool
  get_bson :: bson

text \<open>The frames and commands handed to the transport.\<close>

datatype rpc =
    OP_DELETE string bool bson
  | OP_INSERT string bool "bson list"
  | OP_UPDATE string bool bool "bson option" "bson option"
  | COMMAND string bson

text \<open>
  The transport is an environment: what happens to the \<open>k\<close>-th frame or command sent and
  what the \<open>k\<close>-th read of a getLastError reply returns. A failure carries the error that
  the transport records. A command that fails still leaves a reply document, which the
  executor merges.
\<close>

record transport =
  sendv :: "nat \<Rightarrow> bson_error option"
  recv_gle :: "nat \<Rightarrow> bson_error + bson"
  command_simple :: "nat \<Rightarrow> bson_error option \<times> bson"

text \<open>
  One pass of the command executor through its label \<^verbatim>\<open>again\<close>: the number of items put
  into the sub-batch (0 when not even one fits and nothing is sent), \<open>has_more\<close>, and the
  outcome \<open>ret\<close> of the send.
\<close>

datatype round = Round (round_items: "32 word") (round_has_more: bool) (round_ret: bool)

text \<open>
  The state of an executor run: the result accumulator, whose \<open>error\<close> is the error record
  the executors write to (the dispatcher passes \<^verbatim>\<open>&result->error\<close> to all of them), and
  the history of the run: everything sent so far, the number of getLastError reads, and
  the passes of the command executor.
\<close>

record exec_state =
  write_result :: mongoc_write_result_t
  wire :: "rpc list"
  n_recv :: nat
  rounds :: "round list"

text \<open>
  A run ends by returning, by a failed assertion, or, in the model of a loop that need not
  end, with the state reached when the steps allowed to it are used up.
\<close>

datatype 'a run = Finished 'a | Aborted | OutOfFuel 'a

definition fail_with :: "bson_error \<Rightarrow> exec_state \<Rightarrow> exec_state" where
  "fail_with e st = st\<lparr>write_result := (write_result st)\<lparr>error := e, failed := True\<rparr>\<rparr>"

definition set_failed :: "exec_state \<Rightarrow> exec_state" where
  "set_failed st = st\<lparr>write_result := (write_result st)\<lparr>failed := True\<rparr>\<rparr>"

text \<open>Sending a frame and, where the write concern asks for it, reading the reply.\<close>

definition client_sendv :: "transport \<Rightarrow> rpc \<Rightarrow> exec_state \<Rightarrow> bool \<times> exec_state" where
  "client_sendv T frame st =
     (let st' = st\<lparr>wire := wire st @ [frame]\<rparr>
      in case sendv T (length (wire st)) of
           None \<Rightarrow> (True, st')
         | Some e \<Rightarrow> (False, st'\<lparr>write_result := (write_result st')\<lparr>error := e\<rparr>\<rparr>))"

definition client_recv_gle :: "transport \<Rightarrow> exec_state \<Rightarrow> bson option \<times> exec_state" where
  "client_recv_gle T st =
     (let st' = st\<lparr>n_recv := Suc (n_recv st)\<rparr>
      in case recv_gle T (n_recv st) of
           Inr gle \<Rightarrow> (Some gle, st')
         | Inl e \<Rightarrow> (None, st'\<lparr>write_result := (write_result st')\<lparr>error := e\<rparr>\<rparr>))"

definition merge_legacy_state ::
  "mongoc_write_command_t \<Rightarrow> bson \<Rightarrow> 32 word \<Rightarrow> exec_state \<Rightarrow> exec_state" where
  "merge_legacy_state command gle offset st =
     st\<lparr>write_result := mongoc_write_result_merge_legacy (write_result st) command gle offset\<rparr>"

text \<open>
  The namespace is formatted into a buffer of \<^verbatim>\<open>MONGOC_NAMESPACE_MAX + 1\<close> bytes.
  Modelled from the spec: the constant is declared in a header that is not among the
  sources; the spec says only that the namespace is bounded by a protocol maximum, and the
  model takes the driver's value 128.
\<close>

definition MONGOC_NAMESPACE_MAX :: nat where
  "MONGOC_NAMESPACE_MAX = 128"

definition namespace :: "string \<Rightarrow> string \<Rightarrow> string" where
  "namespace database collection = take MONGOC_NAMESPACE_MAX (database @ ''.'' @ collection)"

section \<open>The legacy executors\<close>

text \<open>\<^verbatim>\<open>bson_iter_recurse\<close> enters a document or an array.\<close>

definition bson_iter_recurse :: "bson_value \<Rightarrow> bson option" where
  "bson_iter_recurse v = (case v of BDocument d \<Rightarrow> Some d | BArray d \<Rightarrow> Some d | _ \<Rightarrow> None)"

definition bson_iter_document :: "bson_value \<Rightarrow> bson option" where
  "bson_iter_document v = (case v of BDocument d \<Rightarrow> Some d | _ \<Rightarrow> None)"

subsection \<open>Delete\<close>

text \<open>
  \<^verbatim>\<open>_mongoc_write_command_delete_legacy\<close>. The loop takes the entries from the iterator,
  whose current element is the head of the list.
\<close>

fun delete_legacy_loop ::
  "transport \<Rightarrow> mongoc_write_concern_t \<Rightarrow> mongoc_write_command_t \<Rightarrow> string \<Rightarrow> bson \<Rightarrow> 32 word
     \<Rightarrow> exec_state \<Rightarrow> exec_state run" where
  "delete_legacy_loop T wc command ns [] offset st = Finished st"
| "delete_legacy_loop T wc command ns ((k, v) # iter) offset st =
     (case (case bson_iter_recurse v of
              Some q_iter \<Rightarrow>
                (case bson_iter_init_find q_iter ''q'' of
                   Some (BDocument data) \<Rightarrow> Some data | _ \<Rightarrow> None)
            | None \<Rightarrow> None) of
        None \<Rightarrow> Aborted
      | Some data \<Rightarrow>
          (case client_sendv T (OP_DELETE ns (\<not> multi command) data) st of
             (False, st1) \<Rightarrow> Finished (set_failed st1)
           | (True, st1) \<Rightarrow>
               if needs_gle wc
               then (case client_recv_gle T st1 of
                       (None, st2) \<Rightarrow> Finished (set_failed st2)
                     | (Some gle, st2) \<Rightarrow>
                         delete_legacy_loop T wc command ns iter (offset + 1)
                           (merge_legacy_state command gle offset st2))
               else delete_legacy_loop T wc command ns iter offset st1))"

definition mongoc_write_command_delete_legacy ::
  "transport \<Rightarrow> mongoc_write_concern_t \<Rightarrow> mongoc_write_command_t \<Rightarrow> string \<Rightarrow> string \<Rightarrow> 32 word
     \<Rightarrow> exec_state \<Rightarrow> exec_state run" where
  "mongoc_write_command_delete_legacy T wc command database collection offset st =
     (if n_documents command = 0 \<or> documents command = []
      then Finished (fail_with
             (bson_set_error MONGOC_ERROR_COLLECTION MONGOC_ERROR_COLLECTION_DELETE_FAILED
                ''Cannot do an empty delete.'') st)
      else delete_legacy_loop T wc command (namespace database collection)
             (documents command) offset st)"

subsection \<open>Insert\<close>

text \<open>\<^verbatim>\<open>too_large_error\<close>: the error record and the error document.\<close>

definition too_large_message :: "32 word \<Rightarrow> 32 word \<Rightarrow> 32 word \<Rightarrow> string" where
  "too_large_message index len max_bson_size =
     ''Document '' @ dec_string (unat index) @ '' is too large for the cluster. Document is ''
       @ dec_string (unat len) @ '' bytes, max is '' @ signed_dec_string max_bson_size @ ''.''"

definition too_large_error :: "32 word \<Rightarrow> 32 word \<Rightarrow> 32 word \<Rightarrow> bson_error \<times> bson" where
  "too_large_error index len max_bson_size =
     (let e = bson_set_error MONGOC_ERROR_BSON (CODE 2) (too_large_message index len max_bson_size)
      in (e, [(''index'', BInt32 index), (''err'', BUtf8 (message e)), (''code'', BInt32 2)]))"

text \<open>
  The inner loop of \<^verbatim>\<open>_mongoc_write_command_insert_legacy\<close> builds one batch. It starts
  at the iterator's current element and returns the iterator, the index, the batch and
  \<open>has_more\<close> as they are when the loop is left, with the result after the merges of
  too-large errors. \<open>iov\<close> holds the documents of the batch, so \<open>n_docs_in_batch\<close> is its
  length and \<open>sz\<close> is the source's \<open>size\<close>. The comparisons with the node's limits are unsigned, and
  \<open>max_msg_size - len\<close> wraps around.
\<close>

fun insert_legacy_batch ::
  "mongoc_write_command_t \<Rightarrow> cluster_node \<Rightarrow> 32 word \<Rightarrow> bson \<Rightarrow> 32 word \<Rightarrow> bson list \<Rightarrow> 32 word
     \<Rightarrow> mongoc_write_result_t
     \<Rightarrow> (bson \<times> 32 word \<times> bson list \<times> bool \<times> mongoc_write_result_t) option" where
  "insert_legacy_batch command node offset [] index iov sz r = Some ([], index, iov, False, r)"
| "insert_legacy_batch command node offset ((k, v) # iter) index iov sz r =
     (case v of
        BDocument data \<Rightarrow>
          if \<not> (of_nat (length iov) \<le> index) \<or> \<not> (index < n_documents command)
             \<or> \<not> (5 \<le> bson_len data)
          then None
          else if max_bson_obj_size node < bson_len data
          then (let (e, write_err_doc) =
                      too_large_error index (bson_len data) (max_bson_obj_size node);
                    r' = mongoc_write_result_merge_legacy (r\<lparr>error := e\<rparr>) command
                           write_err_doc (offset + index)
                in if ordered command then Some ((k, v) # iter, index, iov, False, r')
                   else insert_legacy_batch command node offset iter (index + 1) iov sz r')
          else if (length iov = 1 \<and> \<not> allow_bulk_op_insert command)
                  \<or> max_msg_size node - bson_len data < sz
          then Some ((k, v) # iter, index, iov, True, r)
          else insert_legacy_batch command node offset iter (index + 1) (iov @ [data])
                 (sz + bson_len data) r
      | _ \<Rightarrow> None)"

text \<open>
  The acknowledgement of a legacy insert reports \<open>n = 0\<close>; unless the reply carries an
  error, the executor overwrites that \<open>n\<close> with the size of the batch.
\<close>

fun bson_overwrite_n :: "bson \<Rightarrow> 32 word \<Rightarrow> bson" where
  "bson_overwrite_n [] n_docs_in_batch = []"
| "bson_overwrite_n ((k, v) # rest) n_docs_in_batch =
     (if k = ''n''
      then (if v = BInt32 0 then (k, BInt32 n_docs_in_batch) # rest else (k, v) # rest)
      else (k, v) # bson_overwrite_n rest n_docs_in_batch)"

definition insert_legacy_gle :: "bson \<Rightarrow> 32 word \<Rightarrow> bson" where
  "insert_legacy_gle gle n_docs_in_batch =
     (let err = (case bson_iter_init_find gle ''err'' of
                   Some v \<Rightarrow> bson_iter_as_bool v | None \<Rightarrow> False)
      in if \<not> err then bson_overwrite_n gle n_docs_in_batch else gle)"

definition insert_legacy_send ::
  "transport \<Rightarrow> mongoc_write_concern_t \<Rightarrow> mongoc_write_command_t \<Rightarrow> string \<Rightarrow> bson list
     \<Rightarrow> exec_state \<Rightarrow> bson option \<times> exec_state" where
  "insert_legacy_send T wc command ns iov st =
     (if iov = [] then (None, st)
      else (case client_sendv T (OP_INSERT ns (\<not> ordered command) iov) st of
              (False, st1) \<Rightarrow> (None, set_failed st1)
            | (True, st1) \<Rightarrow>
                if needs_gle wc
                then (case client_recv_gle T st1 of
                        (None, st2) \<Rightarrow> (None, set_failed st2)
                      | (Some gle, st2) \<Rightarrow>
                          (Some (insert_legacy_gle gle (of_nat (length iov))), st2))
                else (None, st1)))"

text \<open>
  One pass from the label \<^verbatim>\<open>again\<close> to the test of \<open>has_more\<close>; \<open>fuel\<close> bounds the number
  of passes.
\<close>

fun insert_legacy_loop ::
  "nat \<Rightarrow> transport \<Rightarrow> mongoc_write_concern_t \<Rightarrow> mongoc_write_command_t \<Rightarrow> cluster_node \<Rightarrow> string
     \<Rightarrow> 32 word \<Rightarrow> 32 word \<Rightarrow> bson \<Rightarrow> 32 word \<Rightarrow> 32 word \<Rightarrow> exec_state \<Rightarrow> exec_state run" where
  "insert_legacy_loop 0 T wc command node ns size0 offset iter index current_offset st =
     OutOfFuel st"
| "insert_legacy_loop (Suc fuel) T wc command node ns size0 offset iter index current_offset st =
     (case insert_legacy_batch command node offset iter index [] size0 (write_result st) of
        None \<Rightarrow> Aborted
      | Some (iter', index', iov, has_more, r') \<Rightarrow>
          (let (gle, st1) = insert_legacy_send T wc command ns iov (st\<lparr>write_result := r'\<rparr>);
               (st2, current_offset') =
                  (case gle of
                     Some g \<Rightarrow> (merge_legacy_state command g current_offset st1, offset + index')
                   | None \<Rightarrow> (st1, current_offset))
           in if has_more
              then insert_legacy_loop fuel T wc command node ns size0 offset iter' index'
                     current_offset' st2
              else Finished st2))"

text \<open>
  The size of an empty \<^verbatim>\<open>OP_INSERT\<close> message: header, flags, and the two strings with
  their terminators. Modelled from the spec: \<^verbatim>\<open>mongoc_rpc_header_t\<close> is declared in a
  header that is not among the sources; it is the wire protocol's header of four int32
  fields, 16 bytes.
\<close>

definition insert_legacy_size0 :: "string \<Rightarrow> string \<Rightarrow> 32 word" where
  "insert_legacy_size0 database collection =
     of_nat (16 + 4 + length database + 1 + length collection + 1)"

definition mongoc_write_command_insert_legacy ::
  "nat \<Rightarrow> transport \<Rightarrow> mongoc_write_concern_t \<Rightarrow> mongoc_write_command_t \<Rightarrow> cluster_node
     \<Rightarrow> string \<Rightarrow> string \<Rightarrow> 32 word \<Rightarrow> exec_state \<Rightarrow> exec_state run" where
  "mongoc_write_command_insert_legacy fuel T wc command node database collection offset st =
     (if cmd_type command \<noteq> MONGOC_WRITE_COMMAND_INSERT then Aborted
      else if n_documents command = 0 \<or> documents command = []
      then Finished (fail_with
             (bson_set_error MONGOC_ERROR_COLLECTION MONGOC_ERROR_COLLECTION_INSERT_FAILED
                ''Cannot do an empty insert.'') st)
      else insert_legacy_loop fuel T wc command node (namespace database collection)
             (insert_legacy_size0 database collection) offset (documents command) 0 offset st)"

subsection \<open>Update\<close>

text \<open>
  \<^verbatim>\<open>_mongoc_write_command_update_legacy\<close>. \<^verbatim>\<open>bson_validate\<close> belongs to the BSON library
  and is a parameter \<open>bson_validate\<close> of the model: whether the document passes the check for
  UTF-8, dollar keys and dotted keys. The first loop checks every entry before anything is
  sent and yields the error it stops with, if any.
\<close>

definition first_key_is_operator :: "bson \<Rightarrow> bool" where
  "first_key_is_operator doc =
     (case doc of
        (key, v) # rest \<Rightarrow> (case key of c # cs \<Rightarrow> c = CHR ''$'' | [] \<Rightarrow> False)
      | [] \<Rightarrow> False)"

fun update_legacy_check :: "(bson \<Rightarrow> bool) \<Rightarrow> bson \<Rightarrow> bson_error option" where
  "update_legacy_check bson_validate [] = None"
| "update_legacy_check bson_validate ((k, v) # iter) =
     (case (case bson_iter_recurse v of
              Some subiter \<Rightarrow>
                (case bson_iter_init_find subiter ''u'' of
                   Some (BDocument doc) \<Rightarrow> Some doc | _ \<Rightarrow> None)
            | None \<Rightarrow> None) of
        Some doc \<Rightarrow>
          if doc \<noteq> [] \<and> \<not> first_key_is_operator doc \<and> \<not> bson_validate doc
          then Some (bson_set_error MONGOC_ERROR_BSON MONGOC_ERROR_BSON_INVALID
                       ''update document is corrupt or contains invalid keys including $ or .'')
          else update_legacy_check bson_validate iter
      | None \<Rightarrow>
          Some (bson_set_error MONGOC_ERROR_BSON MONGOC_ERROR_BSON_INVALID
                  ''updates is malformed.''))"

text \<open>
  The second loop reads the fields of an entry into the frame. The frame's selector and
  update are fields of a local that lives across the iterations, so an entry without
  \<^verbatim>\<open>q\<close> or \<^verbatim>\<open>u\<close> leaves the previous ones in place; the flags are reset for each entry.
  \<open>affected\<close> likewise keeps its value when a reply has no int32 \<^verbatim>\<open>n\<close>.
\<close>

record update_frame =
  flag_upsert :: bool
  flag_multi :: bool
  has_update :: bool
  has_selector :: bool
  is_upsert :: bool
  rpc_update :: "bson option"
  rpc_selector :: "bson option"

fun update_legacy_fields :: "bson \<Rightarrow> update_frame \<Rightarrow> update_frame" where
  "update_legacy_fields [] f = f"
| "update_legacy_fields ((k, v) # subiter) f =
     update_legacy_fields subiter
       (if k = ''u'' then f\<lparr>rpc_update := bson_iter_document v, has_update := True\<rparr>
        else if k = ''q'' then f\<lparr>rpc_selector := bson_iter_document v, has_selector := True\<rparr>
        else if k = ''multi''
        then (if bson_iter_bool v then f\<lparr>flag_multi := True\<rparr> else f)
        else if k = ''upsert''
        then (if bson_iter_bool v then f\<lparr>flag_upsert := True\<rparr> else f)\<lparr>is_upsert := True\<rparr>
        else f)"

definition find_in :: "bson option \<Rightarrow> string \<Rightarrow> bson_value option" where
  "find_in b key = (case b of Some d \<Rightarrow> bson_iter_init_find d key | None \<Rightarrow> None)"

text \<open>The back-fill of the upserted \<^verbatim>\<open>_id\<close> for servers before 2.6.\<close>

definition update_legacy_backfill :: "update_frame \<Rightarrow> 32 word \<Rightarrow> bson \<Rightarrow> bson" where
  "update_legacy_backfill f affected gle =
     (if is_upsert f \<and> affected \<noteq> 0 \<and> bson_iter_init_find gle ''upserted'' = None
         \<and> bson_iter_init_find gle ''updatedExisting'' = Some (BBool False)
      then (if has_update f \<and> find_in (rpc_update f) ''_id'' \<noteq> None
            then (case find_in (rpc_update f) ''_id'' of
                    Some v \<Rightarrow> gle @ [(''upserted'', v)] | None \<Rightarrow> gle)
            else if has_selector f \<and> find_in (rpc_selector f) ''_id'' \<noteq> None
            then (case find_in (rpc_selector f) ''_id'' of
                    Some v \<Rightarrow> gle @ [(''upserted'', v)] | None \<Rightarrow> gle)
            else gle)
      else gle)"

fun update_legacy_loop ::
  "transport \<Rightarrow> mongoc_write_concern_t \<Rightarrow> mongoc_write_command_t \<Rightarrow> string \<Rightarrow> bson \<Rightarrow> 32 word
     \<Rightarrow> bson option \<Rightarrow> bson option \<Rightarrow> 32 word \<Rightarrow> exec_state \<Rightarrow> exec_state run" where
  "update_legacy_loop T wc command ns [] offset upd sel affected st = Finished st"
| "update_legacy_loop T wc command ns ((k, v) # iter) offset upd sel affected st =
     (let f = update_legacy_fields (case bson_iter_recurse v of Some d \<Rightarrow> d | None \<Rightarrow> [])
                \<lparr>flag_upsert = False, flag_multi = False, has_update = False,
                 has_selector = False, is_upsert = False, rpc_update = upd, rpc_selector = sel\<rparr>
      in case client_sendv T
                (OP_UPDATE ns (flag_upsert f) (flag_multi f) (rpc_selector f) (rpc_update f)) st of
           (False, st1) \<Rightarrow> Finished (set_failed st1)
         | (True, st1) \<Rightarrow>
             if needs_gle wc
             then (case client_recv_gle T st1 of
                     (None, st2) \<Rightarrow> Finished (set_failed st2)
                   | (Some gle, st2) \<Rightarrow>
                       (let affected' = (case bson_iter_init_find gle ''n'' of
                                           Some (BInt32 w) \<Rightarrow> w | _ \<Rightarrow> affected)
                        in update_legacy_loop T wc command ns iter (offset + 1)
                             (rpc_update f) (rpc_selector f) affected'
                             (merge_legacy_state command
                                (update_legacy_backfill f affected' gle) offset st2)))
             else update_legacy_loop T wc command ns iter offset
                    (rpc_update f) (rpc_selector f) affected st1)"

definition mongoc_write_command_update_legacy ::
  "(bson \<Rightarrow> bool) \<Rightarrow> transport \<Rightarrow> mongoc_write_concern_t \<Rightarrow> mongoc_write_command_t \<Rightarrow> string
     \<Rightarrow> string \<Rightarrow> 32 word \<Rightarrow> exec_state \<Rightarrow> exec_state run" where
  "mongoc_write_command_update_legacy bson_validate T wc command database collection offset st =
     (case update_legacy_check bson_validate (documents command) of
        Some e \<Rightarrow> Finished (fail_with e st)
      | None \<Rightarrow>
          update_legacy_loop T wc command (namespace database collection) (documents command)
            offset None None 0 st)"

text \<open>\<^verbatim>\<open>gLegacyWriteOps\<close>, indexed by the kind of the buffer.\<close>

definition gLegacyWriteOps ::
  "nat \<Rightarrow> (bson \<Rightarrow> bool) \<Rightarrow> transport \<Rightarrow> mongoc_write_concern_t \<Rightarrow> mongoc_write_command_t
     \<Rightarrow> cluster_node \<Rightarrow> string \<Rightarrow> string \<Rightarrow> 32 word \<Rightarrow> exec_state \<Rightarrow> exec_state run" where
  "gLegacyWriteOps fuel bson_validate T wc command node database collection offset st =
     (case cmd_type command of
        MONGOC_WRITE_COMMAND_DELETE \<Rightarrow>
          mongoc_write_command_delete_legacy T wc command database collection offset st
      | MONGOC_WRITE_COMMAND_INSERT \<Rightarrow>
          mongoc_write_command_insert_legacy fuel T wc command node database collection offset st
      | MONGOC_WRITE_COMMAND_UPDATE \<Rightarrow>
          mongoc_write_command_update_legacy bson_validate T wc command database collection
            offset st)"

section \<open>The command executor\<close>

definition gCommandNames :: "mongoc_write_command_type \<Rightarrow> string" where
  "gCommandNames t =
     (case t of MONGOC_WRITE_COMMAND_DELETE \<Rightarrow> ''delete''
              | MONGOC_WRITE_COMMAND_INSERT \<Rightarrow> ''insert''
              | MONGOC_WRITE_COMMAND_UPDATE \<Rightarrow> ''update'')"

definition gCommandFields :: "mongoc_write_command_type \<Rightarrow> string" where
  "gCommandFields t =
     (case t of MONGOC_WRITE_COMMAND_DELETE \<Rightarrow> ''deletes''
              | MONGOC_WRITE_COMMAND_INSERT \<Rightarrow> ''documents''
              | MONGOC_WRITE_COMMAND_UPDATE \<Rightarrow> ''updates'')"

text \<open>\<^verbatim>\<open>_empty_error\<close>\<close>

definition empty_error :: "mongoc_write_command_t \<Rightarrow> bson_error" where
  "empty_error command =
     bson_set_error MONGOC_ERROR_COLLECTION
       (case cmd_type command of
          MONGOC_WRITE_COMMAND_DELETE \<Rightarrow> MONGOC_ERROR_COLLECTION_DELETE_FAILED
        | MONGOC_WRITE_COMMAND_INSERT \<Rightarrow> MONGOC_ERROR_COLLECTION_INSERT_FAILED
        | MONGOC_WRITE_COMMAND_UPDATE \<Rightarrow> MONGOC_ERROR_COLLECTION_UPDATE_FAILED)
       (''Cannot do an empty '' @ gCommandNames (cmd_type command))"

definition WRITE_CONCERN_DOC :: "mongoc_write_concern_t \<Rightarrow> bson" where
  "WRITE_CONCERN_DOC wc = (if needs_gle wc then get_bson wc else [])"

text \<open>
  The itemized path of \<^verbatim>\<open>_mongoc_write_command\<close>: items are copied into the array \<open>ar\<close>
  until the estimator says that the next one would overflow. The loop returns the
  iterator, the count \<open>i\<close>, the array, \<open>has_more\<close> and the length of the last item read.
\<close>

fun write_command_batch ::
  "cluster_node \<Rightarrow> bson \<Rightarrow> 32 word \<Rightarrow> bson \<Rightarrow> 32 word
     \<Rightarrow> (bson \<times> 32 word \<times> bson \<times> bool \<times> 32 word) option" where
  "write_command_batch node [] i ar len = Some ([], i, ar, False, len)"
| "write_command_batch node ((k, v) # iter) i ar len =
     (case v of
        BDocument data \<Rightarrow>
          (let key = bson_uint32_to_string i
           in case mongoc_write_command_will_overflow (bson_len ar)
                     (of_nat (length key) + bson_len data + 2) i
                     (max_bson_obj_size node) (max_write_batch_size node) of
                None \<Rightarrow> None
              | Some True \<Rightarrow> Some ((k, v) # iter, i, ar, True, bson_len data)
              | Some False \<Rightarrow>
                  write_command_batch node iter (i + 1) (ar @ [(key, BDocument data)])
                    (bson_len data))
      | _ \<Rightarrow> None)"

definition client_command_simple ::
  "transport \<Rightarrow> string \<Rightarrow> bson \<Rightarrow> exec_state \<Rightarrow> bool \<times> bson \<times> exec_state" where
  "client_command_simple T database cmd st =
     (let st' = st\<lparr>wire := wire st @ [COMMAND database cmd]\<rparr>
      in case command_simple T (length (wire st)) of
           (None, reply) \<Rightarrow> (True, reply, st')
         | (Some e, reply) \<Rightarrow> (False, reply, st'\<lparr>write_result := (write_result st')\<lparr>error := e\<rparr>\<rparr>))"

text \<open>
  One pass from the label \<^verbatim>\<open>again\<close> to the test that decides whether to go back to it.
  It returns the iterator, the offset, the last item length, \<open>has_more\<close>, \<open>ret\<close> and the
  state, in which the pass is logged.
\<close>

definition write_command_round ::
  "transport \<Rightarrow> mongoc_write_concern_t \<Rightarrow> mongoc_write_command_t \<Rightarrow> cluster_node \<Rightarrow> string \<Rightarrow> string
     \<Rightarrow> bson \<Rightarrow> 32 word \<Rightarrow> 32 word \<Rightarrow> exec_state
     \<Rightarrow> (bson \<times> 32 word \<times> 32 word \<times> bool \<times> bool \<times> exec_state) option" where
  "write_command_round T wc command node database collection iter offset len st =
     (let cmd = [(gCommandNames (cmd_type command), BUtf8 collection),
                 (''writeConcern'', BDocument (WRITE_CONCERN_DOC wc)),
                 (''ordered'', BBool (ordered command))]
      in case mongoc_write_command_will_overflow 0 (bson_len (documents command))
                (n_documents command) (max_bson_obj_size node) (max_write_batch_size node) of
           None \<Rightarrow> None
         | Some overflow \<Rightarrow>
             (case (if \<not> overflow
                    then Some (iter, n_documents command, documents command, False, len)
                    else write_command_batch node iter 0 [] len) of
                None \<Rightarrow> None
              | Some (iter', i, ar, has_more, len') \<Rightarrow>
                  (let cmd' = cmd @ [(gCommandFields (cmd_type command), BArray ar)];
                       (ret, offset', st1) =
                         (if i = 0
                          then (False, offset,
                                fail_with (fst (too_large_error i len' (max_bson_obj_size node))) st)
                          else (case client_command_simple T database cmd' st of
                                  (ret, reply, st') \<Rightarrow>
                                    (let st'' = (if \<not> ret then set_failed st' else st')
                                     in (ret, offset + i,
                                         st''\<lparr>write_result := mongoc_write_result_merge
                                                 (write_result st'') command reply offset\<rparr>))))
                   in Some (iter', offset', len', has_more, ret,
                            st1\<lparr>rounds := rounds st1 @ [Round i has_more ret]\<rparr>))))"

fun write_command_loop ::
  "nat \<Rightarrow> transport \<Rightarrow> mongoc_write_concern_t \<Rightarrow> mongoc_write_command_t \<Rightarrow> cluster_node \<Rightarrow> string
     \<Rightarrow> string \<Rightarrow> bson \<Rightarrow> 32 word \<Rightarrow> 32 word \<Rightarrow> exec_state \<Rightarrow> exec_state run" where
  "write_command_loop 0 T wc command node database collection iter offset len st = OutOfFuel st"
| "write_command_loop (Suc fuel) T wc command node database collection iter offset len st =
     (case write_command_round T wc command node database collection iter offset len st of
        None \<Rightarrow> Aborted
      | Some (iter', offset', len', has_more, ret, st') \<Rightarrow>
          if has_more \<and> (ret \<or> \<not> ordered command)
          then write_command_loop fuel T wc command node database collection iter' offset' len' st'
          else Finished st')"

text \<open>
  \<^verbatim>\<open>_mongoc_write_command\<close>. A node whose minimal wire version reads \<open>-1\<close> is invalid
  and the executor returns at once; an unacknowledged write to a node that still accepts
  the opcodes goes to the legacy executor of the buffer's kind.
\<close>

definition mongoc_write_command ::
  "nat \<Rightarrow> (bson \<Rightarrow> bool) \<Rightarrow> transport \<Rightarrow> mongoc_write_concern_t \<Rightarrow> mongoc_write_command_t
     \<Rightarrow> cluster_node \<Rightarrow> string \<Rightarrow> string \<Rightarrow> 32 word \<Rightarrow> exec_state \<Rightarrow> exec_state run" where
  "mongoc_write_command fuel bson_validate T wc command node database collection offset st =
     (if min_wire_version node = - 1 then Finished st
      else if min_wire_version node = 0 \<and> \<not> needs_gle wc
      then gLegacyWriteOps fuel bson_validate T wc command node database collection offset st
      else if n_documents command = 0 \<or> documents command = []
      then Finished (fail_with (empty_error command) st)
      else write_command_loop fuel T wc command node database collection (documents command)
             offset 0 st)"

section \<open>Sequences of accumulator operations\<close>

text \<open>
  The operations a caller applies to one accumulator during its lifetime: merges of
  replies from either wire path, each with its offset, and finalization, which reads the
  accumulator and leaves it as it is.
\<close>

datatype accumulator_op =
    MergeCommand mongoc_write_command_t bson "32 word"
  | MergeLegacy mongoc_write_command_t bson "32 word"
  | Finalize "bson option" "bson_error option"

fun apply_op :: "mongoc_write_result_t \<Rightarrow> accumulator_op \<Rightarrow> mongoc_write_result_t" where
  "apply_op result (MergeCommand command reply offset) =
     mongoc_write_result_merge result command reply offset"
| "apply_op result (MergeLegacy command reply offset) =
     mongoc_write_result_merge_legacy result command reply offset"
| "apply_op result (Finalize bson error0) = result"

definition apply_ops :: "mongoc_write_result_t \<Rightarrow> accumulator_op list \<Rightarrow> mongoc_write_result_t" where
  "apply_ops result ops = foldl apply_op result ops"

section \<open>Examples\<close>

definition insert_command_example :: mongoc_write_command_t where
  "insert_command_example =
     \<lparr>cmd_type = MONGOC_WRITE_COMMAND_INSERT, documents = [], n_documents = 0, ordered = True,
      allow_bulk_op_insert = True, multi = False\<rparr>"

definition update_command_example :: mongoc_write_command_t where
  "update_command_example =
     \<lparr>cmd_type = MONGOC_WRITE_COMMAND_UPDATE, documents = [], n_documents = 0, ordered = True,
      allow_bulk_op_insert = False, multi = False\<rparr>"

lemmas example_defs = insert_command_example_def update_command_example_def

definition transport_example :: transport where
  "transport_example =
     \<lparr>sendv = (\<lambda>k. None),
      recv_gle = (\<lambda>k. Inr [(''n'', BInt32 0), (''ok'', BInt32 1)]),
      command_simple = (\<lambda>k. (None, [(''n'', BInt32 1), (''ok'', BInt32 1)]))\<rparr>"

definition write_concern_example :: mongoc_write_concern_t where
  "write_concern_example = \<lparr>needs_gle = True, get_bson = [(''w'', BInt32 1)]\<rparr>"

definition node_example :: cluster_node where
  "node_example = \<lparr>min_wire_version = 0, max_bson_obj_size = 20, max_msg_size = 100,
     max_write_batch_size = 1\<rparr>"

definition exec_state_init :: exec_state where
  "exec_state_init = \<lparr>write_result = mongoc_write_result_init, wire = [], n_recv = 0, rounds = []\<rparr>"

definition two_inserts_example :: "bool \<Rightarrow> mongoc_write_command_t" where
  "two_inserts_example ord =
     \<lparr>cmd_type = MONGOC_WRITE_COMMAND_INSERT,
      documents = [(''0'', BDocument [(''a'', BUtf8 ''0123456789abcdef'')]),
                   (''1'', BDocument [(''a'', BInt32 1)])],
      n_documents = 2, ordered = ord, allow_bulk_op_insert = True, multi = False\<rparr>"

definition two_inserts_final_example :: exec_state where
  "two_inserts_final_example =
     \<lparr>write_result = mongoc_write_result_init\<lparr>nInserted := 2\<rparr>,
      wire =
        [COMMAND ''db''
          [(''insert'', BUtf8 ''c''), (''writeConcern'', BDocument [(''w'', BInt32 1)]),
           (''ordered'', BBool True),
           (''documents'', BArray [(''0'', BDocument [(''a'', BUtf8 ''0123456789abcdef'')])])],
         COMMAND ''db''
          [(''insert'', BUtf8 ''c''), (''writeConcern'', BDocument [(''w'', BInt32 1)]),
           (''ordered'', BBool True),
           (''documents'', BArray [(''0'', BDocument [(''a'', BInt32 1)])])]],
      n_recv = 0, rounds = [Round 1 True True, Round 1 False True]\<rparr>"




lemmas exec_defs =
  mongoc_write_command_def write_command_round_def
  mongoc_write_command_will_overflow_def client_command_simple_def fail_with_def set_failed_def
  gCommandNames_def gCommandFields_def WRITE_CONCERN_DOC_def bson_len_def too_large_error_def
  too_large_message_def signed_dec_string_def word_sless_alt

lemmas exec_example_defs =
  transport_example_def write_concern_example_def node_example_def exec_state_init_def
  two_inserts_example_def

lemmas merge_defs =
  mongoc_write_result_merge_def merge_writeConcernError_def merge_writeErrors_def
  merge_counts_def merge_failed_def merge_update_def mongoc_write_result_merge_arrays_def
  command_affected_def mongoc_write_result_merge_legacy_def merge_legacy_error_def
  merge_legacy_counts_def legacy_n_def legacy_err_def legacy_code_def
  mongoc_write_result_append_upsert_def BSON_MAX_def
  mongoc_write_result_complete_def complete_fields_def complete_error_def

lemmas eval_defs =
  bson_uint32_to_string_def dec_string.simps digit_char_def c_str_def bson_count_keys_def
  bson_iter_int32_def bson_iter_utf8_def bson_iter_bool_def bson_empty0_def bson_set_error_def
  error_unset_def mongoc_write_result_init_def

section \<open>The omit flag of the modified count\<close>

lemma append_upsert_omit [simp]:
  "omit_nModified (mongoc_write_result_append_upsert r i v) = omit_nModified r"
  by (simp add: mongoc_write_result_append_upsert_def)

lemma merge_legacy_omit: "omit_nModified (mongoc_write_result_merge_legacy r c reply off)"
  by (simp add: mongoc_write_result_merge_legacy_def)

lemma merge_upserted_omit:
  "omit_nModified (fst (merge_upserted off ar n r)) = omit_nModified r"
  by (induction off ar n r rule: merge_upserted.induct)
     (auto split: bson_value.splits option.splits)

lemma merge_update_omit: "omit_nModified r \<Longrightarrow> omit_nModified (merge_update r reply off)"
  using merge_upserted_omit
  by (auto simp: merge_update_def Let_def split: option.splits bson_value.splits prod.splits)
   (metis fst_conv)+

lemma merge_omit:
  "omit_nModified r \<Longrightarrow> omit_nModified (mongoc_write_result_merge r c reply off)"
  by (auto simp: mongoc_write_result_merge_def merge_writeConcernError_def merge_writeErrors_def
        merge_counts_def merge_failed_def merge_update_omit
      split: option.splits bson_value.splits mongoc_write_command_type.splits list.splits)

lemma apply_op_omit: "omit_nModified r \<Longrightarrow> omit_nModified (apply_op r x)"
  by (cases x) (simp_all add: merge_omit merge_legacy_omit)

lemma apply_ops_omit: "omit_nModified r \<Longrightarrow> omit_nModified (apply_ops r ops)"
  unfolding apply_ops_def
  by (induction ops arbitrary: r) (simp_all add: apply_op_omit)

text \<open>
  C8. Once \<open>omit_nModified\<close> is set at some point of a sequence of merge-command,
  merge-legacy and finalize operations, it is still set after any further operations;
  and every merge-legacy call sets it.
\<close>

theorem omit_nModified_monotone:
  "(omit_nModified (apply_ops result ops1) \<longrightarrow> omit_nModified (apply_ops result (ops1 @ ops2)))
   \<and> omit_nModified (mongoc_write_result_merge_legacy result command reply offset)"
  using apply_ops_omit [of "apply_ops result ops1" ops2]
  by (simp add: apply_ops_def merge_legacy_omit)

theorem omit_nModified_monotone_witness:
  "omit_nModified (apply_ops mongoc_write_result_init
      [MergeLegacy update_command_example [(''n'', BInt32 1)] 0])
   \<and> omit_nModified (apply_ops mongoc_write_result_init
      ([MergeLegacy update_command_example [(''n'', BInt32 1)] 0]
       @ [MergeCommand update_command_example [(''n'', BInt32 1), (''nModified'', BInt32 1)] 1,
          Finalize None None]))"
  using omit_nModified_monotone [of mongoc_write_result_init
      "[MergeLegacy update_command_example [(''n'', BInt32 1)] 0]"
      "[MergeCommand update_command_example [(''n'', BInt32 1), (''nModified'', BInt32 1)] 1,
        Finalize None None]"
      update_command_example "[(''n'', BInt32 1)]" 0]
  by (simp add: apply_ops_def)

section \<open>Legacy replies that carry an error\<close>

lemma merge_legacy_upserted_failed [simp]:
  "failed (merge_legacy_upserted off ar i r) = failed r"
  by (induction off ar i r rule: merge_legacy_upserted.induct)
     (auto simp: mongoc_write_result_append_upsert_def split: bson_value.splits option.splits)

lemma merge_legacy_upserted_writeErrors [simp]:
  "writeErrors (merge_legacy_upserted off ar i r) = writeErrors r"
  by (induction off ar i r rule: merge_legacy_upserted.induct)
     (auto simp: mongoc_write_result_append_upsert_def split: bson_value.splits option.splits)

lemma merge_legacy_counts_failed [simp]:
  "failed (merge_legacy_counts r c reply off) = failed r"
  by (auto simp: merge_legacy_counts_def Let_def mongoc_write_result_append_upsert_def
      split: mongoc_write_command_type.splits option.splits bson_value.splits)

lemma merge_legacy_counts_writeErrors [simp]:
  "writeErrors (merge_legacy_counts r c reply off) = writeErrors r"
  by (auto simp: merge_legacy_counts_def Let_def mongoc_write_result_append_upsert_def
      split: mongoc_write_command_type.splits option.splits bson_value.splits)

lemma merge_arrays_single:
  "fst (mongoc_write_result_merge_arrays off dest [(k, BDocument d)]) =
     dest @ [(bson_uint32_to_string (bson_count_keys dest), BDocument (merge_arrays_child off d))]"
  by (simp add: mongoc_write_result_merge_arrays_def)

lemma legacy_err_Some: "legacy_err reply = Some e \<longleftrightarrow> bson_iter_init_find reply ''err'' = Some (BUtf8 e)"
  by (auto simp: legacy_err_def split: option.splits bson_value.splits)

lemma legacy_code_nonzero:
  "legacy_code reply \<noteq> 0 \<longleftrightarrow> (\<exists>c. bson_iter_init_find reply ''code'' = Some (BInt32 c) \<and> c \<noteq> 0)"
  by (auto simp: legacy_code_def split: option.splits bson_value.splits)

lemma merge_legacy_failed:
  "failed (mongoc_write_result_merge_legacy result command reply offset) =
     (failed result \<or> (legacy_err reply \<noteq> None \<and> legacy_code reply \<noteq> 0))"
  by (auto simp: mongoc_write_result_merge_legacy_def merge_legacy_error_def split: option.splits)

lemma merge_legacy_writeErrors:
  "writeErrors (mongoc_write_result_merge_legacy result command reply offset) =
     (case legacy_err reply of
        None \<Rightarrow> writeErrors result
      | Some e \<Rightarrow>
          if legacy_code reply = 0 then writeErrors result
          else writeErrors result @
            [(bson_uint32_to_string (bson_count_keys (writeErrors result)),
              BDocument [(''index'', BInt32 offset), (''code'', BInt32 (legacy_code reply)),
                         (''errmsg'', BUtf8 (c_str e))])])"
  by (auto simp: mongoc_write_result_merge_legacy_def merge_legacy_error_def merge_arrays_single
        bson_iter_int32_def split: option.splits)

text \<open>
  C10. merge-legacy marks the result failed and appends the synthesized write error
  \<open>{index: offset, code, errmsg}\<close> when the reply's \<^verbatim>\<open>err\<close> field is UTF-8 and its
  \<^verbatim>\<open>code\<close> field is a nonzero int32, and only then: in every other case, and so when
  \<^verbatim>\<open>code\<close> is absent or is 0, \<open>failed\<close> and \<open>writeErrors\<close> are left as they were.
\<close>

theorem merge_legacy_error_only_with_err_and_code:
  "(\<forall>e c. bson_iter_init_find reply ''err'' = Some (BUtf8 e)
          \<and> bson_iter_init_find reply ''code'' = Some (BInt32 c) \<and> c \<noteq> 0 \<longrightarrow>
      failed (mongoc_write_result_merge_legacy result command reply offset)
      \<and> writeErrors (mongoc_write_result_merge_legacy result command reply offset) =
          writeErrors result @
            [(bson_uint32_to_string (bson_count_keys (writeErrors result)),
              BDocument [(''index'', BInt32 offset), (''code'', BInt32 c),
                         (''errmsg'', BUtf8 (c_str e))])])
   \<and> ((\<nexists>e c. bson_iter_init_find reply ''err'' = Some (BUtf8 e)
          \<and> bson_iter_init_find reply ''code'' = Some (BInt32 c) \<and> c \<noteq> 0) \<longrightarrow>
      failed (mongoc_write_result_merge_legacy result command reply offset) = failed result
      \<and> writeErrors (mongoc_write_result_merge_legacy result command reply offset) =
          writeErrors result)
   \<and> (bson_iter_init_find reply ''code'' = None
        \<or> bson_iter_init_find reply ''code'' = Some (BInt32 0) \<longrightarrow>
      failed (mongoc_write_result_merge_legacy result command reply offset) = failed result
      \<and> writeErrors (mongoc_write_result_merge_legacy result command reply offset) =
          writeErrors result)"
proof (intro conjI allI impI)
  fix e c
  assume h: "bson_iter_init_find reply ''err'' = Some (BUtf8 e)
    \<and> bson_iter_init_find reply ''code'' = Some (BInt32 c) \<and> c \<noteq> 0"
  then have e: "legacy_err reply = Some e" and c: "legacy_code reply = c"
    by (simp_all add: legacy_err_def legacy_code_def)
  from h e c show "failed (mongoc_write_result_merge_legacy result command reply offset)"
    by (simp add: merge_legacy_failed)
  from h e c show "writeErrors (mongoc_write_result_merge_legacy result command reply offset) =
          writeErrors result @
            [(bson_uint32_to_string (bson_count_keys (writeErrors result)),
              BDocument [(''index'', BInt32 offset), (''code'', BInt32 c),
                         (''errmsg'', BUtf8 (c_str e))])]"
    by (simp add: merge_legacy_writeErrors)
next
  assume h: "\<nexists>e c. bson_iter_init_find reply ''err'' = Some (BUtf8 e)
          \<and> bson_iter_init_find reply ''code'' = Some (BInt32 c) \<and> c \<noteq> 0"
  then have n: "legacy_err reply = None \<or> legacy_code reply = 0"
    using legacy_code_nonzero[of reply] by (cases "legacy_err reply") (auto simp: legacy_err_Some)
  from n show "failed (mongoc_write_result_merge_legacy result command reply offset) = failed result"
    by (auto simp: merge_legacy_failed)
  from n show "writeErrors (mongoc_write_result_merge_legacy result command reply offset) =
          writeErrors result"
    by (auto simp: merge_legacy_writeErrors split: option.splits)
next
  assume h: "bson_iter_init_find reply ''code'' = None
        \<or> bson_iter_init_find reply ''code'' = Some (BInt32 0)"
  then have n: "legacy_code reply = 0"
    by (auto simp: legacy_code_def)
  from n show "failed (mongoc_write_result_merge_legacy result command reply offset) = failed result"
    by (auto simp: merge_legacy_failed)
  from n show "writeErrors (mongoc_write_result_merge_legacy result command reply offset) =
          writeErrors result"
    by (auto simp: merge_legacy_writeErrors split: option.splits)
qed

theorem merge_legacy_error_only_with_err_and_code_witness:
  "failed (mongoc_write_result_merge_legacy mongoc_write_result_init insert_command_example
      [(''err'', BUtf8 ''dup''), (''code'', BInt32 11000)] 3)
   \<and> writeErrors (mongoc_write_result_merge_legacy mongoc_write_result_init insert_command_example
      [(''err'', BUtf8 ''dup''), (''code'', BInt32 11000)] 3) =
       [(''0'', BDocument [(''index'', BInt32 3), (''code'', BInt32 11000),
                          (''errmsg'', BUtf8 ''dup'')])]
   \<and> \<not> failed (mongoc_write_result_merge_legacy mongoc_write_result_init insert_command_example
      [(''err'', BUtf8 ''dup''), (''code'', BInt32 0)] 3)
   \<and> writeErrors (mongoc_write_result_merge_legacy mongoc_write_result_init insert_command_example
      [(''err'', BUtf8 ''dup'')] 3) = []"
  using merge_legacy_error_only_with_err_and_code
      [of "[(''err'', BUtf8 ''dup''), (''code'', BInt32 11000)]" mongoc_write_result_init
          insert_command_example 3]
    merge_legacy_error_only_with_err_and_code
      [of "[(''err'', BUtf8 ''dup''), (''code'', BInt32 0)]" mongoc_write_result_init
          insert_command_example 3]
    merge_legacy_error_only_with_err_and_code
      [of "[(''err'', BUtf8 ''dup'')]" mongoc_write_result_init insert_command_example 3]
  by (simp add: eval_defs)

section \<open>The write-concern error\<close>

text \<open>
  What one operation contributes to the accumulator's \<open>writeConcernError\<close>: the fields of
  the reply's \<^verbatim>\<open>writeConcernError\<close> document on the command path, nothing otherwise.
\<close>

fun reply_writeConcernError :: "accumulator_op \<Rightarrow> bson" where
  "reply_writeConcernError (MergeCommand command reply offset) =
     (case bson_iter_init_find reply ''writeConcernError'' of
        Some (BDocument d) \<Rightarrow> d | _ \<Rightarrow> [])"
| "reply_writeConcernError (MergeLegacy command reply offset) = []"
| "reply_writeConcernError (Finalize bson error0) = []"

lemma append_upsert_wce [simp]:
  "writeConcernError (mongoc_write_result_append_upsert r i v) = writeConcernError r"
  by (simp add: mongoc_write_result_append_upsert_def)

lemma merge_upserted_wce [simp]:
  "writeConcernError (fst (merge_upserted off ar n r)) = writeConcernError r"
  by (induction off ar n r rule: merge_upserted.induct)
     (auto split: bson_value.splits option.splits)

lemma merge_legacy_upserted_wce [simp]:
  "writeConcernError (merge_legacy_upserted off ar i r) = writeConcernError r"
  by (induction off ar i r rule: merge_legacy_upserted.induct)
     (auto split: bson_value.splits option.splits)

lemma merge_update_wce [simp]:
  "writeConcernError (merge_update r reply off) = writeConcernError r"
proof -
  have "\<And>ar r' n'. merge_upserted off ar 0 r = (r', n') \<Longrightarrow> writeConcernError r' = writeConcernError r"
    using merge_upserted_wce by (metis fst_conv)
  then show ?thesis
    by (auto simp: merge_update_def Let_def split: option.splits bson_value.splits prod.splits)
qed

lemma merge_counts_wce [simp]:
  "writeConcernError (merge_counts r c reply off) = writeConcernError r"
  by (simp add: merge_counts_def split: mongoc_write_command_type.splits)

lemma merge_wce:
  "writeConcernError (mongoc_write_result_merge r c reply off) =
     writeConcernError r @ reply_writeConcernError (MergeCommand c reply off)"
  by (auto simp: mongoc_write_result_merge_def merge_writeConcernError_def merge_writeErrors_def
        merge_failed_def split: option.splits bson_value.splits list.splits)

lemma merge_legacy_wce:
  "writeConcernError (mongoc_write_result_merge_legacy r c reply off) = writeConcernError r"
  by (auto simp: mongoc_write_result_merge_legacy_def merge_legacy_error_def merge_legacy_counts_def
        Let_def split: option.splits bson_value.splits mongoc_write_command_type.splits)

lemma apply_op_wce:
  "writeConcernError (apply_op r x) = writeConcernError r @ reply_writeConcernError x"
  by (cases x) (simp_all add: merge_wce merge_legacy_wce del: reply_writeConcernError.simps(1))

lemma apply_ops_wce:
  "writeConcernError (apply_ops r ops) = writeConcernError r @ concat (map reply_writeConcernError ops)"
  unfolding apply_ops_def
  by (induction ops arbitrary: r) (simp_all add: apply_op_wce)

text \<open>
  C4, as amended. After any sequence of operations on a zero-initialized accumulator,
  \<open>writeConcernError\<close> is one document holding the fields of the \<^verbatim>\<open>writeConcernError\<close>
  documents of all merged command replies, concatenated in merge order: a later reply
  adds its fields after those of the earlier ones and replaces nothing.
\<close>

theorem writeConcernError_concatenates:
  "writeConcernError (apply_ops mongoc_write_result_init ops) =
     concat (map reply_writeConcernError ops)"
  by (simp add: apply_ops_wce mongoc_write_result_init_def)

theorem writeConcernError_concatenates_witness:
  "writeConcernError (apply_ops mongoc_write_result_init
      [MergeCommand insert_command_example
         [(''n'', BInt32 1), (''writeConcernError'', BDocument [(''code'', BInt32 64)])] 0,
       MergeLegacy insert_command_example [(''n'', BInt32 1)] 1,
       MergeCommand insert_command_example
         [(''n'', BInt32 1), (''writeConcernError'', BDocument [(''code'', BInt32 100)])] 2])
   = [(''code'', BInt32 64), (''code'', BInt32 100)]"
  using writeConcernError_concatenates [of
      "[MergeCommand insert_command_example
         [(''n'', BInt32 1), (''writeConcernError'', BDocument [(''code'', BInt32 64)])] 0,
       MergeLegacy insert_command_example [(''n'', BInt32 1)] 1,
       MergeCommand insert_command_example
         [(''n'', BInt32 1), (''writeConcernError'', BDocument [(''code'', BInt32 100)])] 2]"]
  by simp

text \<open>
  The claim as stated fails: after two replies that each carry a write-concern error, the
  stored document holds both codes, not the last reply's alone.
\<close>

theorem writeConcernError_last_wins_counterexample:
  "writeConcernError (apply_ops mongoc_write_result_init
      [MergeCommand insert_command_example
         [(''n'', BInt32 1), (''writeConcernError'', BDocument [(''code'', BInt32 64)])] 0,
       MergeCommand insert_command_example
         [(''n'', BInt32 1), (''writeConcernError'', BDocument [(''code'', BInt32 100)])] 1])
   = [(''code'', BInt32 64), (''code'', BInt32 100)]
   \<and> [(''code'', BInt32 64), (''code'', BInt32 100)] \<noteq> [(''code'', BInt32 100)]"
  by (simp add: apply_ops_def mongoc_write_result_merge_def merge_writeConcernError_def
        merge_writeErrors_def merge_counts_def merge_failed_def eval_defs example_defs)

section \<open>The caller's error record\<close>

text \<open>
  The scan of the first write error keeps the last \<^verbatim>\<open>errmsg\<close> and the last \<^verbatim>\<open>code\<close>
  field it meets.
\<close>

definition last_field :: "bson \<Rightarrow> string \<Rightarrow> bson_value option" where
  "last_field d key = bson_iter_init_find (rev d) key"

lemma find_append:
  "bson_iter_init_find (a @ b) key =
     (case bson_iter_init_find a key of Some v \<Rightarrow> Some v | None \<Rightarrow> bson_iter_init_find b key)"
  by (induction a) auto

lemma last_field_Cons:
  "last_field ((k, v) # d) key =
     (case last_field d key of Some w \<Rightarrow> Some w | None \<Rightarrow> if k = key then Some v else None)"
  by (simp add: last_field_def find_append split: option.splits)

lemma complete_scan_last:
  "complete_scan d err c =
     (case last_field d ''errmsg'' of None \<Rightarrow> err | Some v \<Rightarrow> bson_iter_utf8 v,
      case last_field d ''code'' of None \<Rightarrow> c | Some v \<Rightarrow> bson_iter_int32 v)"
proof (induction d arbitrary: err c)
  case Nil
  then show ?case by (simp add: last_field_def)
next
  case (Cons p d)
  obtain k v where p: "p = (k, v)" by (cases p)
  show ?case
    unfolding p by (simp add: Cons.IH last_field_Cons split: option.splits)
qed

text \<open>
  A transport whose first command is answered with a write error and whose later commands
  fail on the socket, and the accumulator that a run over it leaves: one server write
  error, and the error that the second send recorded.
\<close>

definition socket_error_example :: bson_error where
  "socket_error_example =
     \<lparr>domain = MONGOC_ERROR_STREAM, code = MONGOC_ERROR_STREAM_SOCKET,
      message = ''Failed to read from socket''\<rparr>"

definition duplicate_reply_example :: bson where
  "duplicate_reply_example =
     [(''n'', BInt32 0),
      (''writeErrors'', BArray [(''0'', BDocument [(''index'', BInt32 0),
         (''code'', BInt32 11000), (''errmsg'', BUtf8 ''dup'')])])]"

definition failing_transport_example :: transport where
  "failing_transport_example =
     transport_example
       \<lparr>command_simple := (\<lambda>k. if k = 0 then (None, duplicate_reply_example)
                                else (Some socket_error_example, []))\<rparr>"

definition result_example :: mongoc_write_result_t where
  "result_example =
     (mongoc_write_result_merge mongoc_write_result_init (two_inserts_example False)
        duplicate_reply_example 0)
     \<lparr>error := socket_error_example, failed := True\<rparr>"

text \<open>
  What the caller's record is expected to hold. A write error is usable when it is a
  document whose last \<^verbatim>\<open>errmsg\<close> field is UTF-8 and whose last \<^verbatim>\<open>code\<close> field is a
  nonzero int32.
\<close>

definition usable_write_error :: "bson_value \<Rightarrow> (32 word \<times> string) option" where
  "usable_write_error v =
     (case v of
        BDocument d \<Rightarrow>
          (case (last_field d ''errmsg'', last_field d ''code'') of
             (Some (BUtf8 msg), Some (BInt32 c)) \<Rightarrow> if c \<noteq> 0 then Some (c, msg) else None
           | _ \<Rightarrow> None)
      | _ \<Rightarrow> None)"

definition expected_error :: "mongoc_write_result_t \<Rightarrow> bson_error" where
  "expected_error result =
     (case writeErrors result of
        [] \<Rightarrow> error result
      | (k, v) # rest \<Rightarrow>
          (case usable_write_error v of
             None \<Rightarrow> error result
           | Some (c, msg) \<Rightarrow>
               \<lparr>domain = MONGOC_ERROR_COMMAND, code = CODE c, message = take 503 (c_str msg)\<rparr>))"

text \<open>
  C6, as amended. When finalize is called with a requested error record, the record is the
  command-domain error made of the first write error's code and message if that write
  error is usable, whatever error the accumulator held before; in every other case (no
  write errors, or a first write error that is not a document, has no UTF-8 \<^verbatim>\<open>errmsg\<close>
  or has no nonzero int32 \<^verbatim>\<open>code\<close>) it is a copy of the accumulator's error. With no
  record requested none is produced.
\<close>

theorem complete_error_from_first_write_error:
  "snd (snd (mongoc_write_result_complete result bson (Some e0))) = Some (expected_error result)
   \<and> snd (snd (mongoc_write_result_complete result bson None)) = None"
  by (auto simp: mongoc_write_result_complete_def complete_error_def Let_def complete_scan_last
        expected_error_def usable_write_error_def
        bson_empty0_def bson_iter_utf8_def bson_iter_int32_def bson_set_error_def
      split: option.splits list.splits bson_value.splits prod.splits)

theorem complete_error_from_first_write_error_witness:
  "snd (snd (mongoc_write_result_complete result_example None (Some error_unset))) =
       Some \<lparr>domain = MONGOC_ERROR_COMMAND, code = CODE 11000, message = ''dup''\<rparr>
   \<and> snd (snd (mongoc_write_result_complete mongoc_write_result_init None
                  (Some socket_error_example)))
       = Some error_unset
   \<and> snd (snd (mongoc_write_result_complete
                  (result_example\<lparr>writeErrors := [(''0'', BDocument [(''code'', BInt32 11000)])]\<rparr>)
                  None (Some error_unset)))
       = Some socket_error_example"
  using complete_error_from_first_write_error [of result_example None error_unset]
    complete_error_from_first_write_error [of mongoc_write_result_init None socket_error_example]
    complete_error_from_first_write_error
      [of "result_example\<lparr>writeErrors := [(''0'', BDocument [(''code'', BInt32 11000)])]\<rparr>"
          None error_unset]
  by (simp add: result_example_def duplicate_reply_example_def socket_error_example_def
        expected_error_def usable_write_error_def
        last_field_def mongoc_write_result_merge_def merge_writeConcernError_def
        merge_writeErrors_def merge_counts_def merge_failed_def
        mongoc_write_result_merge_arrays_def command_affected_def eval_defs
        two_inserts_example_def)

text \<open>
  The claim as stated fails in its second half. An unordered insert of two documents is
  sent as two commands; the first is answered with a write error, the second fails on the
  socket, which records the socket error in the accumulator. Finalize then hands the
  caller the first write error's code and message, not the error that was recorded.
\<close>

theorem complete_error_counterexample:
  "\<exists>st. mongoc_write_command (Suc (Suc 0)) (\<lambda>d. True) failing_transport_example
           write_concern_example (two_inserts_example False) node_example ''db'' ''c'' 0
           exec_state_init = Finished st
      \<and> error (write_result st) = socket_error_example
      \<and> writeErrors (write_result st) \<noteq> []
      \<and> snd (snd (mongoc_write_result_complete (write_result st) None (Some error_unset))) =
          Some \<lparr>domain = MONGOC_ERROR_COMMAND, code = CODE 11000, message = ''dup''\<rparr>
      \<and> \<lparr>domain = MONGOC_ERROR_COMMAND, code = CODE 11000, message = ''dup''\<rparr>
          \<noteq> socket_error_example"
  by (simp add: exec_defs exec_example_defs merge_defs eval_defs
        failing_transport_example_def duplicate_reply_example_def socket_error_example_def)

section \<open>Global indices\<close>

text \<open>
  The index convention, in the spec's words: a reported write error keeps its fields, its
  \<^verbatim>\<open>index\<close> becoming the caller's offset plus the reported index (in 32-bit arithmetic,
  an index that is not an int32 reading as 0); a reported upsert becomes \<open>{index, _id}\<close>.
  On the command path the upsert's index is the offset plus the index the server reported;
  on the legacy path it is the offset plus the position of the upsert among those of the
  reply, and the offset itself for a scalar \<^verbatim>\<open>upserted\<close>.
\<close>

definition global_index :: "32 word \<Rightarrow> bson \<Rightarrow> bson" where
  "global_index offset d =
     map (\<lambda>(k, v). if k = ''index'' then (k, BInt32 (offset + bson_iter_int32 v)) else (k, v)) d"

definition upsert_record :: "32 word \<Rightarrow> bson_value \<Rightarrow> bson_value" where
  "upsert_record idx v = BDocument [(''index'', BInt32 idx), (''_id'', v)]"

definition reported_upserts :: "bson \<Rightarrow> (32 word \<times> bson_value) list" where
  "reported_upserts ar =
     concat (map (\<lambda>(k, v). case v of
        BDocument d \<Rightarrow>
          (case (bson_iter_init_find d ''index'', bson_iter_init_find d ''_id'') of
             (Some (BInt32 server_index), Some val) \<Rightarrow> [(server_index, val)]
           | _ \<Rightarrow> [])
      | _ \<Rightarrow> []) ar)"

definition reported_ids :: "bson \<Rightarrow> bson_value list" where
  "reported_ids ar =
     concat (map (\<lambda>(k, v). case v of
        BDocument d \<Rightarrow> (case bson_iter_init_find d ''_id'' of Some val \<Rightarrow> [val] | None \<Rightarrow> [])
      | _ \<Rightarrow> []) ar)"

definition reported_documents :: "bson \<Rightarrow> bson list" where
  "reported_documents ar = concat (map (\<lambda>(k, v). case v of BDocument d \<Rightarrow> [d] | _ \<Rightarrow> []) ar)"

fun expected_writeErrors :: "accumulator_op \<Rightarrow> bson_value list" where
  "expected_writeErrors (MergeCommand command reply offset) =
     (case bson_iter_init_find reply ''writeErrors'' of
        Some (BArray ar) \<Rightarrow> map (\<lambda>d. BDocument (global_index offset d)) (reported_documents ar)
      | _ \<Rightarrow> [])"
| "expected_writeErrors (MergeLegacy command reply offset) =
     (case (bson_iter_init_find reply ''err'', bson_iter_init_find reply ''code'') of
        (Some (BUtf8 e), Some (BInt32 c)) \<Rightarrow>
          if c \<noteq> 0
          then [BDocument [(''index'', BInt32 (offset + 0)), (''code'', BInt32 c),
                           (''errmsg'', BUtf8 (c_str e))]]
          else []
      | _ \<Rightarrow> [])"
| "expected_writeErrors (Finalize bson error0) = []"

fun expected_upserted :: "accumulator_op \<Rightarrow> bson_value list" where
  "expected_upserted (MergeCommand command reply offset) =
     (if cmd_type command = MONGOC_WRITE_COMMAND_UPDATE
      then (case bson_iter_init_find reply ''upserted'' of
              Some (BArray ar) \<Rightarrow>
                map (\<lambda>(server_index, val). upsert_record (offset + server_index) val)
                  (reported_upserts ar)
            | _ \<Rightarrow> [])
      else [])"
| "expected_upserted (MergeLegacy command reply offset) =
     (if cmd_type command = MONGOC_WRITE_COMMAND_UPDATE
      then (case bson_iter_init_find reply ''upserted'' of
              Some (BArray ar) \<Rightarrow>
                map (\<lambda>(position, val). upsert_record (offset + of_nat position) val)
                  (enumerate 0 (reported_ids ar))
            | Some val \<Rightarrow> [upsert_record offset val]
            | None \<Rightarrow> [])
      else [])"
| "expected_upserted (Finalize bson error0) = []"

lemma merge_arrays_child_global: "merge_arrays_child offset d = global_index offset d"
  by (induction d) (auto simp: global_index_def add.commute)

lemma merge_arrays_loop_values:
  "map snd (fst (merge_arrays_loop offset ar aridx dest n)) =
     map snd dest @ map (\<lambda>d. BDocument (global_index offset d)) (reported_documents ar)"
  by (induction offset ar aridx dest n rule: merge_arrays_loop.induct)
     (auto simp: reported_documents_def merge_arrays_child_global split: bson_value.splits)

lemma merge_arrays_values:
  "map snd (fst (mongoc_write_result_merge_arrays offset dest ar)) =
     map snd dest @ map (\<lambda>d. BDocument (global_index offset d)) (reported_documents ar)"
  by (simp add: mongoc_write_result_merge_arrays_def merge_arrays_loop_values)

lemma append_upsert_writeErrors [simp]:
  "writeErrors (mongoc_write_result_append_upsert r i v) = writeErrors r"
  by (simp add: mongoc_write_result_append_upsert_def)

lemma append_upsert_upserted:
  "map snd (upserted (mongoc_write_result_append_upsert r i v)) =
     map snd (upserted r) @ [upsert_record i v]"
  by (simp add: mongoc_write_result_append_upsert_def upsert_record_def)

lemma merge_upserted_writeErrors [simp]:
  "writeErrors (fst (merge_upserted off ar n r)) = writeErrors r"
  by (induction off ar n r rule: merge_upserted.induct)
     (auto split: bson_value.splits option.splits)

lemma merge_upserted_values:
  "map snd (upserted (fst (merge_upserted off ar n r))) =
     map snd (upserted r) @
       map (\<lambda>(server_index, val). upsert_record (off + server_index) val) (reported_upserts ar)"
  by (induction off ar n r rule: merge_upserted.induct)
     (auto simp: reported_upserts_def append_upsert_upserted split: bson_value.splits option.splits)

lemma enumerate_shift:
  "map (\<lambda>(position, val). upsert_record (off + i + of_nat position) val) (enumerate (Suc 0) xs) =
   map (\<lambda>(position, val). upsert_record (off + (i + 1) + of_nat position) val) (enumerate 0 xs)"
  by (simp add: enumerate_Suc_eq comp_def case_prod_beta ac_simps)

lemma merge_legacy_upserted_values:
  "map snd (upserted (merge_legacy_upserted off ar i r)) =
     map snd (upserted r) @
       map (\<lambda>(position, val). upsert_record (off + i + of_nat position) val)
         (enumerate 0 (reported_ids ar))"
proof (induction off ar i r rule: merge_legacy_upserted.induct)
  case (1 offset upsert_idx result)
  then show ?case by (simp add: reported_ids_def)
next
  case (2 offset k v ar upsert_idx result)
  show ?case
  proof (cases v)
    case (BDocument d)
    show ?thesis
    proof (cases "bson_iter_init_find d ''_id''")
      case None
      with BDocument 2 show ?thesis by (simp add: reported_ids_def)
    next
      case (Some val)
      have ids: "reported_ids ((k, v) # ar) = val # reported_ids ar"
        using BDocument Some by (simp add: reported_ids_def)
      have "map snd (upserted (merge_legacy_upserted offset ((k, v) # ar) upsert_idx result)) =
            map snd (upserted (mongoc_write_result_append_upsert result (offset + upsert_idx) val))
            @ map (\<lambda>(position, val). upsert_record (offset + (upsert_idx + 1) + of_nat position) val)
                (enumerate 0 (reported_ids ar))"
        using BDocument Some 2 by simp
      then show ?thesis
        unfolding ids by (simp add: append_upsert_upserted enumerate_shift)
    qed
  qed (use 2 in \<open>simp_all add: reported_ids_def\<close>)
qed


lemma merge_update_writeErrors [simp]:
  "writeErrors (merge_update r reply off) = writeErrors r"
proof -
  have "\<And>ar r' n'. merge_upserted off ar 0 r = (r', n') \<Longrightarrow> writeErrors r' = writeErrors r"
    using merge_upserted_writeErrors by (metis fst_conv)
  then show ?thesis
    by (auto simp: merge_update_def Let_def split: option.splits bson_value.splits prod.splits)
qed

lemma merge_counts_writeErrors [simp]:
  "writeErrors (merge_counts r c reply off) = writeErrors r"
  by (simp add: merge_counts_def split: mongoc_write_command_type.splits)

lemma merge_failed_writeErrors [simp]: "writeErrors (merge_failed r reply) = writeErrors r"
  by (simp add: merge_failed_def split: option.splits bson_value.splits list.splits)

lemma merge_failed_upserted [simp]: "upserted (merge_failed r reply) = upserted r"
  by (simp add: merge_failed_def split: option.splits bson_value.splits list.splits)

lemma merge_writeErrors_upserted [simp]: "upserted (merge_writeErrors r reply off) = upserted r"
  by (simp add: merge_writeErrors_def split: option.splits bson_value.splits)

lemma merge_writeConcernError_upserted [simp]:
  "upserted (merge_writeConcernError r reply) = upserted r"
  by (simp add: merge_writeConcernError_def split: option.splits bson_value.splits)

lemma merge_writeConcernError_writeErrors [simp]:
  "writeErrors (merge_writeConcernError r reply) = writeErrors r"
  by (simp add: merge_writeConcernError_def split: option.splits bson_value.splits)

lemma merge_values_writeErrors:
  "map snd (writeErrors (mongoc_write_result_merge r c reply off)) =
     map snd (writeErrors r) @ expected_writeErrors (MergeCommand c reply off)"
  by (simp add: mongoc_write_result_merge_def merge_writeErrors_def merge_arrays_values
      split: option.splits bson_value.splits)

lemma merge_update_upserted:
  "map snd (upserted (merge_update r reply off)) =
     map snd (upserted r) @
       (case bson_iter_init_find reply ''upserted'' of
          Some (BArray ar) \<Rightarrow>
            map (\<lambda>(server_index, val). upsert_record (off + server_index) val) (reported_upserts ar)
        | _ \<Rightarrow> [])"
proof -
  have "\<And>ar r' n'. merge_upserted off ar 0 r = (r', n') \<Longrightarrow>
      map snd (upserted r') = map snd (upserted r) @
        map (\<lambda>(server_index, val). upsert_record (off + server_index) val) (reported_upserts ar)"
    using merge_upserted_values by (metis fst_conv)
  then show ?thesis
    by (auto simp: merge_update_def Let_def split: option.splits bson_value.splits prod.splits)
qed

lemma merge_values_upserted:
  "map snd (upserted (mongoc_write_result_merge r c reply off)) =
     map snd (upserted r) @ expected_upserted (MergeCommand c reply off)"
  by (simp add: mongoc_write_result_merge_def merge_counts_def merge_update_upserted
      split: mongoc_write_command_type.splits)

lemma merge_legacy_values_writeErrors:
  "map snd (writeErrors (mongoc_write_result_merge_legacy r c reply off)) =
     map snd (writeErrors r) @ expected_writeErrors (MergeLegacy c reply off)"
  by (auto simp: merge_legacy_writeErrors legacy_err_def legacy_code_def
      split: option.splits bson_value.splits)

lemma merge_legacy_error_upserted [simp]:
  "upserted (merge_legacy_error r reply off) = upserted r"
  by (simp add: merge_legacy_error_def split: option.splits)

lemma merge_legacy_values_upserted:
  "map snd (upserted (mongoc_write_result_merge_legacy r c reply off)) =
     map snd (upserted r) @ expected_upserted (MergeLegacy c reply off)"
  using merge_legacy_upserted_values [of off _ 0]
  by (auto simp: mongoc_write_result_merge_legacy_def merge_legacy_counts_def Let_def
        append_upsert_upserted
      split: mongoc_write_command_type.splits option.splits bson_value.splits)

lemma apply_op_values:
  "map snd (writeErrors (apply_op r x)) = map snd (writeErrors r) @ expected_writeErrors x"
  "map snd (upserted (apply_op r x)) = map snd (upserted r) @ expected_upserted x"
  by (cases x; simp add: merge_values_writeErrors merge_values_upserted
        merge_legacy_values_writeErrors merge_legacy_values_upserted
        del: expected_writeErrors.simps(1,2) expected_upserted.simps(1,2))+

lemma apply_ops_values:
  "map snd (writeErrors (apply_ops r ops)) =
     map snd (writeErrors r) @ concat (map expected_writeErrors ops)"
  "map snd (upserted (apply_ops r ops)) =
     map snd (upserted r) @ concat (map expected_upserted ops)"
  unfolding apply_ops_def
  by (induction ops arbitrary: r) (simp_all add: apply_op_values)

lemma complete_fields_arrays:
  "bson_iter_init_find (complete_fields r) ''writeErrors'' = Some (BArray (writeErrors r))"
  "bson_iter_init_find (complete_fields r) ''upserted'' =
     (if upserted r = [] then None else Some (BArray (upserted r)))"
  by (simp_all add: complete_fields_def bson_empty0_def)

definition legacy_upsert_reply_example :: bson where
  "legacy_upsert_reply_example =
     [(''n'', BInt32 1),
      (''upserted'', BArray [(''0'', BDocument [(''index'', BInt32 5), (''_id'', BOid 7)])])]"

text \<open>
  C1, as amended. For every sequence of merges applied to a zero-initialized accumulator,
  the finalized \<^verbatim>\<open>writeErrors\<close> array holds, in merge order, every reported write error
  with its \<^verbatim>\<open>index\<close> set to the caller's offset of that merge plus the reported index,
  and the finalized \<^verbatim>\<open>upserted\<close> array (left out when empty) holds every reported upsert
  with \<^verbatim>\<open>index\<close> equal to the offset plus the server-reported index for merge-command, and
  to the offset plus the upsert's position in its reply for merge-legacy.
\<close>

theorem index_globality:
  "fst (snd (mongoc_write_result_complete (apply_ops mongoc_write_result_init ops) (Some []) error0))
     = Some out \<Longrightarrow>
   (\<exists>we. bson_iter_init_find out ''writeErrors'' = Some (BArray we)
        \<and> map snd we = concat (map expected_writeErrors ops))
   \<and> (case bson_iter_init_find out ''upserted'' of
         Some (BArray up) \<Rightarrow> map snd up = concat (map expected_upserted ops)
       | Some other \<Rightarrow> False
       | None \<Rightarrow> concat (map expected_upserted ops) = [])"
proof -
  assume "fst (snd (mongoc_write_result_complete (apply_ops mongoc_write_result_init ops) (Some []) error0))
     = Some out"
  then have out: "out = complete_fields (apply_ops mongoc_write_result_init ops)"
    by (simp add: mongoc_write_result_complete_def Let_def)
  have init: "writeErrors mongoc_write_result_init = []" "upserted mongoc_write_result_init = []"
    by (simp_all add: mongoc_write_result_init_def)
  have we: "map snd (writeErrors (apply_ops mongoc_write_result_init ops))
      = concat (map expected_writeErrors ops)"
    by (simp add: apply_ops_values(1) init)
  have up: "map snd (upserted (apply_ops mongoc_write_result_init ops))
      = concat (map expected_upserted ops)"
    by (simp add: apply_ops_values(2) init)
  show ?thesis
    unfolding out complete_fields_arrays
    using we up by (auto split: if_splits)
qed

theorem index_globality_witness:
  "(\<exists>we. bson_iter_init_find
       [(''nInserted'', BInt32 0), (''nMatched'', BInt32 0), (''nRemoved'', BInt32 0),
           (''nUpserted'', BInt32 1),
           (''upserted'', BArray [(''0'', BDocument [(''index'', BInt32 10), (''_id'', BOid 7)])]),
           (''writeErrors'', BArray [])] ''writeErrors'' = Some (BArray we) \<and> map snd we = [])
   \<and> [BDocument [(''index'', BInt32 10), (''_id'', BOid 7)]] =
       expected_upserted (MergeLegacy update_command_example legacy_upsert_reply_example 10)"
proof -
  have run: "fst (snd (mongoc_write_result_complete
       (apply_ops mongoc_write_result_init
          [MergeLegacy update_command_example legacy_upsert_reply_example 10])
       (Some []) None)) =
     Some [(''nInserted'', BInt32 0), (''nMatched'', BInt32 0), (''nRemoved'', BInt32 0),
           (''nUpserted'', BInt32 1),
           (''upserted'', BArray [(''0'', BDocument [(''index'', BInt32 10), (''_id'', BOid 7)])]),
           (''writeErrors'', BArray [])]"
    by (simp add: apply_ops_def legacy_upsert_reply_example_def merge_defs eval_defs example_defs)
  show ?thesis
    using index_globality [OF run]
    by (simp add: legacy_upsert_reply_example_def example_defs)
qed

text \<open>
  The claim as stated fails on the legacy path: an upsert that the reply reports at index
  5, merged at offset 10, is stored with index 10.
\<close>

theorem index_globality_counterexample:
  "fst (snd (mongoc_write_result_complete
       (apply_ops mongoc_write_result_init
          [MergeLegacy update_command_example legacy_upsert_reply_example 10])
       (Some []) None)) =
     Some [(''nInserted'', BInt32 0), (''nMatched'', BInt32 0), (''nRemoved'', BInt32 0),
           (''nUpserted'', BInt32 1),
           (''upserted'', BArray [(''0'', BDocument [(''index'', BInt32 10), (''_id'', BOid 7)])]),
           (''writeErrors'', BArray [])]
   \<and> BInt32 10 \<noteq> BInt32 (10 + 5)"
  by (simp add: apply_ops_def legacy_upsert_reply_example_def merge_defs eval_defs example_defs)

section \<open>The estimator's answer\<close>

lemma uint_eq_sint_nonneg:
  fixes w :: "32 word"
  assumes "0 \<le> sint w"
  shows "uint w = sint w"
proof -
  have "sint w < 2 ^ 32"
    using sint_lt [of w] by simp
  then have "take_bit 32 (sint w) = sint w"
    using assms by (simp add: take_bit_int_eq_self)
  then show ?thesis
    using uint_sint [of w] by simp
qed

lemma max_cmd_size_uint:
  fixes mb :: "32 word"
  assumes "0 \<le> sint mb + 16382" "sint mb + 16382 < 2 ^ 31"
  shows "uint (mb + 16382) = sint mb + 16382"
proof -
  have "sint (mb + 16382) = signed_take_bit 31 (sint mb + 16382)"
    by (simp add: sint_word_add)
  also have "\<dots> = sint mb + 16382"
    using assms by (intro signed_take_bit_int_eq_self) simp_all
  finally have s: "sint (mb + 16382) = sint mb + 16382" .
  then have "0 \<le> sint (mb + 16382)" using assms by simp
  then show ?thesis using s uint_eq_sint_nonneg by simp
qed

lemma batch_limit_int:
  fixes mbatch n :: "32 word"
  shows "(0 <s mbatch \<and> mbatch \<le> n) = (0 < sint mbatch \<and> sint mbatch \<le> uint n)"
proof (cases "0 <s mbatch")
  case True
  then have "0 < sint mbatch" by (simp add: word_sless_alt)
  then have "uint mbatch = sint mbatch"
    by (simp add: uint_eq_sint_nonneg)
  then show ?thesis using True by (simp add: word_le_def word_sless_alt)
next
  case False
  then show ?thesis by (simp add: word_sless_alt)
qed

text \<open>
  C2, as amended. Whenever \<open>max_bson\<close> is not 0, \<open>max_bson + 16382\<close> lies between 0 and
  \<open>2^31 - 1\<close>, and \<open>bytes_so_far + next_item_bytes\<close> is below \<open>2^32\<close>, will-overflow returns
  true if and only if \<open>bytes_so_far + next_item_bytes > max_bson + 16382\<close>, or
  \<open>max_batch > 0\<close> and \<open>n_written \<ge> max_batch\<close>; otherwise it returns false. The sums and
  comparisons of the statement are those of the integers.
\<close>

theorem will_overflow_iff:
  fixes bytes_so_far next_item_bytes n_written max_bson max_batch :: "32 word"
  assumes "max_bson \<noteq> 0"
    and "uint bytes_so_far + uint next_item_bytes < 2 ^ 32"
    and "0 \<le> sint max_bson + 16382" and "sint max_bson + 16382 < 2 ^ 31"
  shows "mongoc_write_command_will_overflow bytes_so_far next_item_bytes n_written max_bson max_batch
     = Some (uint bytes_so_far + uint next_item_bytes > sint max_bson + 16382
             \<or> (sint max_batch > 0 \<and> uint n_written \<ge> sint max_batch))"
proof -
  have sum: "uint (bytes_so_far + next_item_bytes) = uint bytes_so_far + uint next_item_bytes"
    using assms(2) by (simp add: uint_add_lem [THEN iffD1])
  have lt: "(max_bson + 16382 < bytes_so_far + next_item_bytes) =
      (sint max_bson + 16382 < uint bytes_so_far + uint next_item_bytes)"
    by (simp add: word_less_def sum max_cmd_size_uint [OF assms(3,4)])
  show ?thesis
    using assms(1) by (auto simp: mongoc_write_command_will_overflow_def Let_def lt batch_limit_int)
qed

theorem will_overflow_iff_witness:
  "mongoc_write_command_will_overflow 16777000 17000 3 16777216 1000 = Some True
   \<and> mongoc_write_command_will_overflow 100 200 1000 16777216 1000 = Some True
   \<and> mongoc_write_command_will_overflow 100 200 999 16777216 1000 = Some False"
  using will_overflow_iff [of 16777216 16777000 17000 3 1000]
    will_overflow_iff [of 16777216 100 200 1000 1000]
    will_overflow_iff [of 16777216 100 200 999 1000]
  by simp

text \<open>
  The claim as stated, for all inputs, fails where the 32-bit sum of the two lengths wraps
  around: the function answers false although the sum of the lengths exceeds the limit.
\<close>

theorem will_overflow_counterexample:
  "mongoc_write_command_will_overflow 4294967295 1 0 16777216 0 = Some False
   \<and> uint (4294967295 :: 32 word) + uint (1 :: 32 word) > sint (16777216 :: 32 word) + 16382"
  by (simp add: mongoc_write_command_will_overflow_def)

section \<open>Entries appended to an insert buffer\<close>

text \<open>
  The number of \<^verbatim>\<open>_id\<close> fields of a document, the number of documents without \<^verbatim>\<open>_id\<close>
  before a position of the input (each of them takes one object id), and the entry that
  the input document at a position becomes.
\<close>

definition count_id :: "bson \<Rightarrow> nat" where
  "count_id d = length (filter (\<lambda>p. fst p = ''_id'') d)"

definition no_id_before :: "bson list \<Rightarrow> nat \<Rightarrow> nat" where
  "no_id_before ds j = length (filter (\<lambda>d. bson_iter_init_find d ''_id'' = None) (take j ds))"

definition appended_entry :: "(nat \<Rightarrow> nat) \<Rightarrow> nat \<Rightarrow> bson list \<Rightarrow> nat \<Rightarrow> bson" where
  "appended_entry oid_init seq ds j =
     (if bson_iter_init_find (ds ! j) ''_id'' = None
      then (''_id'', BOid (oid_init (seq + no_id_before ds j))) # ds ! j
      else ds ! j)"

lemma find_None_count: "bson_iter_init_find d key = None \<longleftrightarrow> filter (\<lambda>p. fst p = key) d = []"
  by (induction d) auto

lemma insert_append_loop_prefix:
  "\<exists>entries. fst (insert_append_loop oid_init ds i docs seq) = docs @ entries"
proof (induction ds arbitrary: i docs seq)
  case Nil
  then show ?case by simp
next
  case (Cons d ds)
  show ?case
    using Cons.IH [of "i + 1" "docs @ [(bson_uint32_to_string i, BDocument ((''_id'', BOid (oid_init seq)) # d))]" "Suc seq"]
      Cons.IH [of "i + 1" "docs @ [(bson_uint32_to_string i, BDocument d)]" seq]
    by auto
qed

lemma appended_entry_Suc:
  "appended_entry oid_init seq (d # ds) (Suc j) =
     appended_entry oid_init (if bson_iter_init_find d ''_id'' = None then Suc seq else seq) ds j"
  by (simp add: appended_entry_def no_id_before_def)

lemma appended_entry_0:
  "appended_entry oid_init seq (d # ds) 0 =
     (if bson_iter_init_find d ''_id'' = None then (''_id'', BOid (oid_init seq)) # d else d)"
  by (simp add: appended_entry_def no_id_before_def)

lemma insert_append_loop_values:
  "map snd (fst (insert_append_loop oid_init ds i docs seq)) =
     map snd docs @ map (\<lambda>j. BDocument (appended_entry oid_init seq ds j)) [0..<length ds]"
proof (induction ds arbitrary: i docs seq)
  case Nil
  then show ?case by simp
next
  case (Cons d ds)
  have "[0..<length (d # ds)] = 0 # map Suc [0..<length ds]"
    by (simp add: map_Suc_upt upt_conv_Cons del: upt_Suc)
  then show ?case
    by (simp add: Cons.IH appended_entry_Suc appended_entry_0 comp_def del: upt_Suc)
qed

lemma count_id_appended:
  "count_id (appended_entry oid_init seq ds j) = max 1 (count_id (ds ! j))"
proof (cases "bson_iter_init_find (ds ! j) ''_id'' = None")
  case True
  then have "count_id (ds ! j) = 0"
    by (simp add: count_id_def find_None_count)
  with True show ?thesis
    by (simp add: appended_entry_def count_id_def)
next
  case False
  then have "filter (\<lambda>p. fst p = ''_id'') (ds ! j) \<noteq> []"
    by (simp add: find_None_count)
  then have "0 < count_id (ds ! j)"
    by (simp add: count_id_def)
  with False show ?thesis
    by (auto simp: appended_entry_def max_def)
qed

text \<open>
  C7, as amended. For every input document of append-insert on an insert buffer, one entry
  is appended, in order: if the document contains no \<^verbatim>\<open>_id\<close> field, the entry is a new
  document whose first field is a newly generated object-id \<^verbatim>\<open>_id\<close> followed by all
  original fields in order; if the document already contains \<^verbatim>\<open>_id\<close>, the entry is the
  document unchanged. So append-insert never adds an \<^verbatim>\<open>_id\<close> to a document that has one:
  the entry has one \<^verbatim>\<open>_id\<close> field where the input has none or one, and as many as the
  input where the input has several.
\<close>

theorem insert_append_entries:
  assumes "mongoc_write_command_insert_append oid_init command ds seq = Some (command', seq')"
  shows "\<exists>entries. documents command' = documents command @ entries
     \<and> length entries = length ds
     \<and> (\<forall>j < length ds.
          (bson_iter_init_find (ds ! j) ''_id'' = None \<longrightarrow>
             snd (entries ! j) =
               BDocument ((''_id'', BOid (oid_init (seq + no_id_before ds j))) # ds ! j))
        \<and> (bson_iter_init_find (ds ! j) ''_id'' \<noteq> None \<longrightarrow>
             snd (entries ! j) = BDocument (ds ! j))
        \<and> (\<exists>e. snd (entries ! j) = BDocument e \<and> count_id e = max 1 (count_id (ds ! j))))"
proof -
  define docs where "docs = fst (insert_append_loop oid_init ds 0 (documents command) seq)"
  have docs': "documents command' = docs"
    using assms
    by (auto simp: mongoc_write_command_insert_append_def docs_def split: if_splits prod.splits)
  have pre: "\<exists>entries. docs = documents command @ entries"
    unfolding docs_def by (rule insert_append_loop_prefix)
  then obtain entries where entries: "docs = documents command @ entries" by blast
  have "map snd docs = map snd (documents command)
      @ map (\<lambda>j. BDocument (appended_entry oid_init seq ds j)) [0..<length ds]"
    unfolding docs_def by (rule insert_append_loop_values)
  then have vals: "map snd entries =
      map (\<lambda>j. BDocument (appended_entry oid_init seq ds j)) [0..<length ds]"
    by (simp add: entries)
  then have len: "length entries = length ds"
    by (metis length_map length_upt minus_nat.diff_0)
  have nth: "snd (entries ! j) = BDocument (appended_entry oid_init seq ds j)" if "j < length ds" for j
  proof -
    have "snd (entries ! j) = map snd entries ! j"
      using that len by simp
    also have "\<dots> = BDocument (appended_entry oid_init seq ds j)"
      unfolding vals using that by simp
    finally show ?thesis .
  qed
  have each: "(bson_iter_init_find (ds ! j) ''_id'' = None \<longrightarrow>
             snd (entries ! j) =
               BDocument ((''_id'', BOid (oid_init (seq + no_id_before ds j))) # ds ! j))
        \<and> (bson_iter_init_find (ds ! j) ''_id'' \<noteq> None \<longrightarrow>
             snd (entries ! j) = BDocument (ds ! j))
        \<and> (\<exists>e. snd (entries ! j) = BDocument e \<and> count_id e = max 1 (count_id (ds ! j)))"
    if j: "j < length ds" for j
    using nth [OF j] count_id_appended [of oid_init seq ds j]
    by (simp add: appended_entry_def)
  have "documents command' = documents command @ entries"
    by (simp add: docs' entries)
  with len each show ?thesis by blast
qed

definition two_documents_example :: "bson list" where
  "two_documents_example = [[(''a'', BInt32 1)], [(''_id'', BInt32 5), (''a'', BInt32 2)]]"

theorem insert_append_entries_witness:
  "\<exists>entries.
     [(''0'', BDocument [(''_id'', BOid 100), (''a'', BInt32 1)]),
      (''1'', BDocument [(''_id'', BInt32 5), (''a'', BInt32 2)])] = [] @ entries
     \<and> length entries = length two_documents_example
     \<and> (\<forall>j < length two_documents_example.
          (bson_iter_init_find (two_documents_example ! j) ''_id'' = None \<longrightarrow>
             snd (entries ! j) =
               BDocument ((''_id'', BOid (100 + (0 + no_id_before two_documents_example j)))
                          # two_documents_example ! j))
        \<and> (bson_iter_init_find (two_documents_example ! j) ''_id'' \<noteq> None \<longrightarrow>
             snd (entries ! j) = BDocument (two_documents_example ! j))
        \<and> (\<exists>e. snd (entries ! j) = BDocument e
               \<and> count_id e = max 1 (count_id (two_documents_example ! j))))"
proof -
  have run: "mongoc_write_command_insert_append (\<lambda>seq. 100 + seq) insert_command_example
      two_documents_example 0 =
    Some (insert_command_example
            \<lparr>documents := [(''0'', BDocument [(''_id'', BOid 100), (''a'', BInt32 1)]),
                           (''1'', BDocument [(''_id'', BInt32 5), (''a'', BInt32 2)])],
             n_documents := 2\<rparr>, 1)"
    by (simp add: mongoc_write_command_insert_append_def two_documents_example_def
          eval_defs example_defs)
  show ?thesis
    using insert_append_entries [OF run] by (simp add: example_defs)
qed

text \<open>
  The claim as stated fails in its last part: a document that comes with two \<^verbatim>\<open>_id\<close>
  fields is appended unchanged, and the entry has two \<^verbatim>\<open>_id\<close> fields.
\<close>

theorem insert_append_two_ids_counterexample:
  "mongoc_write_command_insert_append (\<lambda>seq. 100 + seq) insert_command_example
      [[(''_id'', BInt32 1), (''_id'', BInt32 2)]] 0 =
    Some (insert_command_example
            \<lparr>documents := [(''0'', BDocument [(''_id'', BInt32 1), (''_id'', BInt32 2)])],
             n_documents := 1\<rparr>, 0)
   \<and> count_id [(''_id'', BInt32 1), (''_id'', BInt32 2)] = 2"
  by (simp add: mongoc_write_command_insert_append_def count_id_def eval_defs example_defs)

section \<open>Executors invoked with an empty buffer\<close>

text \<open>
  The two forms of the empty-batch error, and what it means for an executor run to end at
  once with an error: it returns with that error recorded and the result marked failed,
  having sent nothing and read nothing.
\<close>

definition legacy_empty_error :: "mongoc_write_command_type \<Rightarrow> bson_error" where
  "legacy_empty_error t =
     (case t of
        MONGOC_WRITE_COMMAND_DELETE \<Rightarrow>
          \<lparr>domain = MONGOC_ERROR_COLLECTION, code = MONGOC_ERROR_COLLECTION_DELETE_FAILED,
           message = ''Cannot do an empty delete.''\<rparr>
      | MONGOC_WRITE_COMMAND_INSERT \<Rightarrow>
          \<lparr>domain = MONGOC_ERROR_COLLECTION, code = MONGOC_ERROR_COLLECTION_INSERT_FAILED,
           message = ''Cannot do an empty insert.''\<rparr>
      | MONGOC_WRITE_COMMAND_UPDATE \<Rightarrow>
          \<lparr>domain = MONGOC_ERROR_COLLECTION, code = MONGOC_ERROR_COLLECTION_UPDATE_FAILED,
           message = ''Cannot do an empty update.''\<rparr>)"

definition command_empty_error :: "mongoc_write_command_type \<Rightarrow> bson_error" where
  "command_empty_error t =
     (case t of
        MONGOC_WRITE_COMMAND_DELETE \<Rightarrow>
          \<lparr>domain = MONGOC_ERROR_COLLECTION, code = MONGOC_ERROR_COLLECTION_DELETE_FAILED,
           message = ''Cannot do an empty delete''\<rparr>
      | MONGOC_WRITE_COMMAND_INSERT \<Rightarrow>
          \<lparr>domain = MONGOC_ERROR_COLLECTION, code = MONGOC_ERROR_COLLECTION_INSERT_FAILED,
           message = ''Cannot do an empty insert''\<rparr>
      | MONGOC_WRITE_COMMAND_UPDATE \<Rightarrow>
          \<lparr>domain = MONGOC_ERROR_COLLECTION, code = MONGOC_ERROR_COLLECTION_UPDATE_FAILED,
           message = ''Cannot do an empty update''\<rparr>)"

definition terminal_with :: "bson_error \<Rightarrow> exec_state \<Rightarrow> exec_state run \<Rightarrow> bool" where
  "terminal_with e st outcome =
     (case outcome of
        Finished st' \<Rightarrow>
          error (write_result st') = e \<and> failed (write_result st')
          \<and> wire st' = wire st \<and> n_recv st' = n_recv st
      | _ \<Rightarrow> False)"

lemma terminal_fail_with: "terminal_with e st (Finished (fail_with e st))"
  by (simp add: terminal_with_def fail_with_def)

lemma legacy_empty:
  assumes "n_documents command = 0 \<or> documents command = []"
    and "cmd_type command \<noteq> MONGOC_WRITE_COMMAND_UPDATE"
  shows "gLegacyWriteOps fuel bson_validate T wc command node database collection offset st =
     Finished (fail_with (legacy_empty_error (cmd_type command)) st)"
  using assms
  by (cases "cmd_type command")
     (auto simp: gLegacyWriteOps_def mongoc_write_command_delete_legacy_def
        mongoc_write_command_insert_legacy_def legacy_empty_error_def bson_set_error_def)

lemma empty_error_eq: "empty_error command = command_empty_error (cmd_type command)"
  by (cases "cmd_type command")
     (simp_all add: empty_error_def command_empty_error_def bson_set_error_def gCommandNames_def)

text \<open>
  C5, as amended. Invoked with zero operations, the legacy executors of insert and of
  delete buffers, and the command executor for every buffer kind when the node's minimal
  wire version is not \<open>-1\<close> and the write is not handed to a legacy executor, record the
  empty-batch error of the buffer's kind, mark the result failed, and return without
  sending anything on the wire; a command executor that hands an insert or delete buffer
  to the legacy executor ends the same way.
\<close>

theorem empty_batch_is_terminal:
  assumes "n_documents command = 0 \<or> documents command = []"
  shows "(cmd_type command \<noteq> MONGOC_WRITE_COMMAND_UPDATE \<longrightarrow>
            terminal_with (legacy_empty_error (cmd_type command)) st
              (gLegacyWriteOps fuel bson_validate T wc command node database collection offset st))
     \<and> (min_wire_version node \<noteq> - 1 \<and> \<not> (min_wire_version node = 0 \<and> \<not> needs_gle wc) \<longrightarrow>
            terminal_with (command_empty_error (cmd_type command)) st
              (mongoc_write_command fuel bson_validate T wc command node database collection
                 offset st))
     \<and> (min_wire_version node = 0 \<and> \<not> needs_gle wc
          \<and> cmd_type command \<noteq> MONGOC_WRITE_COMMAND_UPDATE \<longrightarrow>
            terminal_with (legacy_empty_error (cmd_type command)) st
              (mongoc_write_command fuel bson_validate T wc command node database collection
                 offset st))"
  using assms legacy_empty [OF assms, of fuel bson_validate T wc node database collection offset st]
  by (auto simp: mongoc_write_command_def terminal_fail_with empty_error_eq [symmetric])

theorem empty_batch_is_terminal_witness:
  "terminal_with (legacy_empty_error MONGOC_WRITE_COMMAND_INSERT) exec_state_init
     (gLegacyWriteOps 1 (\<lambda>d. True) transport_example write_concern_example
        insert_command_example node_example ''db'' ''c'' 0 exec_state_init)
   \<and> terminal_with (command_empty_error MONGOC_WRITE_COMMAND_INSERT) exec_state_init
     (mongoc_write_command 1 (\<lambda>d. True) transport_example write_concern_example
        insert_command_example node_example ''db'' ''c'' 0 exec_state_init)
   \<and> terminal_with (command_empty_error MONGOC_WRITE_COMMAND_UPDATE) exec_state_init
     (mongoc_write_command 1 (\<lambda>d. True) transport_example write_concern_example
        update_command_example node_example ''db'' ''c'' 0 exec_state_init)"
  using empty_batch_is_terminal [where command = insert_command_example and node = node_example
      and wc = write_concern_example and st = exec_state_init and fuel = 1
      and bson_validate = "\<lambda>d. True" and T = transport_example and database = "''db''"
      and collection = "''c''" and offset = 0]
    empty_batch_is_terminal [where command = update_command_example and node = node_example
      and wc = write_concern_example and st = exec_state_init and fuel = 1
      and bson_validate = "\<lambda>d. True" and T = transport_example and database = "''db''"
      and collection = "''c''" and offset = 0]
  by (simp add: example_defs exec_example_defs)

text \<open>
  The claim as stated fails twice. The legacy executor of an update buffer has no test for
  an empty buffer: with zero operations it returns without an error and without marking
  the result failed. And the command executor returns at once, with nothing recorded, when
  the node's minimal wire version reads \<open>-1\<close>.
\<close>

theorem empty_batch_counterexample:
  "mongoc_write_command_update_legacy (\<lambda>d. True) transport_example write_concern_example
      update_command_example ''db'' ''c'' 0 exec_state_init = Finished exec_state_init
   \<and> mongoc_write_command 1 (\<lambda>d. True) transport_example write_concern_example
      insert_command_example (node_example\<lparr>min_wire_version := - 1\<rparr>) ''db'' ''c'' 0
      exec_state_init = Finished exec_state_init
   \<and> \<not> failed (write_result exec_state_init)
   \<and> error (write_result exec_state_init) = error_unset"
  by (simp add: mongoc_write_command_update_legacy_def mongoc_write_command_def
        example_defs exec_example_defs mongoc_write_result_init_def)

section \<open>Sub-batches on the command path\<close>

text \<open>
  What goes on the wire, read back from it. A send succeeded when the transport reported
  no error for the command at that position of the wire; the sub-batch of a command is
  the list of the items in its last field.
\<close>

definition succeeded :: "transport \<Rightarrow> nat \<Rightarrow> bool" where
  "succeeded T k = (fst (command_simple T k) = None)"

fun sub_batch :: "rpc \<Rightarrow> bson_value list" where
  "sub_batch (COMMAND database cmd) =
     (case rev cmd of (field, BArray ar) # cmd0 \<Rightarrow> map snd ar | _ \<Rightarrow> [])"
| "sub_batch frame = []"

text \<open>
  An item fits a command on its own when the estimator accepts it as the first item of an
  empty array.
\<close>

definition fits_command :: "cluster_node \<Rightarrow> bson_value \<Rightarrow> bool" where
  "fits_command node v =
     (case v of
        BDocument data \<Rightarrow>
          mongoc_write_command_will_overflow (bson_len [])
            (of_nat (length (bson_uint32_to_string 0)) + bson_len data + 2) 0
            (max_bson_obj_size node) (max_write_batch_size node) = Some False
      | _ \<Rightarrow> False)"

text \<open>
  The condition for another sub-batch after the command at position \<open>k\<close>, with \<open>rest\<close> the
  items not sent so far: items remain (this is when the executor sets \<open>has_more\<close>), the
  send succeeded or the buffer is unordered, and the next item fits a command on its own.
  \<open>follows\<close> says that the sub-batch \<open>b\<close> sent at position \<open>k\<close> is a non-empty prefix of
  the items and that the list \<open>bs\<close> of the sub-batches sent after it is empty exactly when
  the condition fails, and otherwise starts with a sub-batch of which the same holds.
\<close>

definition another :: "transport \<Rightarrow> bool \<Rightarrow> cluster_node \<Rightarrow> nat \<Rightarrow> bson_value list \<Rightarrow> bool" where
  "another T ord node k rest =
     (case rest of [] \<Rightarrow> False | v # vs \<Rightarrow> (succeeded T k \<or> \<not> ord) \<and> fits_command node v)"

fun follows ::
  "transport \<Rightarrow> bool \<Rightarrow> cluster_node \<Rightarrow> nat \<Rightarrow> bson_value list \<Rightarrow> bson_value list
     \<Rightarrow> bson_value list list \<Rightarrow> bool" where
  "follows T ord node k items b [] =
     (b \<noteq> [] \<and> take (length b) items = b \<and> \<not> another T ord node k (drop (length b) items))"
| "follows T ord node k items b (b' # bs) =
     (b \<noteq> [] \<and> take (length b) items = b \<and> another T ord node k (drop (length b) items)
      \<and> follows T ord node (Suc k) (drop (length b) items) b' bs)"

text \<open>
  The sub-batches of a whole run: nothing is sent only if the first item does not fit a
  command on its own.
\<close>

definition sub_batches ::
  "transport \<Rightarrow> bool \<Rightarrow> cluster_node \<Rightarrow> nat \<Rightarrow> bson_value list \<Rightarrow> bson_value list list \<Rightarrow> bool" where
  "sub_batches T ord node k items bs =
     (case bs of
        [] \<Rightarrow> (case items of [] \<Rightarrow> True | v # vs \<Rightarrow> \<not> fits_command node v)
      | b # bs' \<Rightarrow> follows T ord node k items b bs')"

text \<open>
  A buffer as the append operations build it: not empty, fewer than \<open>2^32\<close> entries, every
  entry a document.
\<close>

definition is_document :: "bson_value \<Rightarrow> bool" where
  "is_document v = (case v of BDocument d \<Rightarrow> True | _ \<Rightarrow> False)"

definition command_buffer :: "mongoc_write_command_t \<Rightarrow> bool" where
  "command_buffer command =
     (n_documents command \<noteq> 0 \<and> documents command \<noteq> []
      \<and> length (documents command) < 2 ^ 32
      \<and> list_all is_document (map snd (documents command)))"

lemma client_command_simple_wire:
  "client_command_simple T database cmd st = (ret, reply, st') \<Longrightarrow>
   wire st' = wire st @ [COMMAND database cmd] \<and> rounds st' = rounds st
   \<and> ret = (fst (command_simple T (length (wire st))) = None)"
  by (auto simp: client_command_simple_def Let_def split: prod.splits option.splits)

text \<open>
  The itemized loop copies a prefix of the items; it stops before the end exactly when it
  sets \<open>has_more\<close>, and it copies nothing exactly when the estimator refuses the first
  item.
\<close>

lemma write_command_batch_result:
  assumes "list_all is_document (map snd iter)" and "max_bson_obj_size node \<noteq> 0"
  shows "\<exists>n ar' len'. n \<le> length iter
     \<and> write_command_batch node iter i ar len =
         Some (drop n iter, i + of_nat n, ar', n < length iter, len')
     \<and> map snd ar' = map snd ar @ map snd (take n iter)
     \<and> (\<forall>k data rest. iter = (k, BDocument data) # rest \<longrightarrow>
          (0 < n) = (mongoc_write_command_will_overflow (bson_len ar)
              (of_nat (length (bson_uint32_to_string i)) + bson_len data + 2) i
              (max_bson_obj_size node) (max_write_batch_size node) = Some False))"
  using assms(1)
proof (induction iter arbitrary: i ar len)
  case Nil
  show ?case by (rule exI [of _ 0]) simp
next
  case (Cons p iter)
  obtain k v where p: "p = (k, v)" by (cases p)
  from Cons.prems p obtain data where v: "v = BDocument data"
    by (cases v) (auto simp: is_document_def)
  from Cons.prems have rest: "list_all is_document (map snd iter)" by simp
  let ?key = "bson_uint32_to_string i"
  have "\<exists>ov. mongoc_write_command_will_overflow (bson_len ar)
      (of_nat (length ?key) + bson_len data + 2) i
      (max_bson_obj_size node) (max_write_batch_size node) = Some ov"
    using assms(2) by (auto simp: mongoc_write_command_will_overflow_def Let_def)
  then obtain ov where ov: "mongoc_write_command_will_overflow (bson_len ar)
      (of_nat (length ?key) + bson_len data + 2) i
      (max_bson_obj_size node) (max_write_batch_size node) = Some ov" ..
  show ?case
  proof (cases ov)
    case True
    show ?thesis
      by (rule exI [of _ 0]) (use ov True p v in \<open>simp add: Let_def\<close>)
  next
    case False
    from Cons.IH [OF rest, of "i + 1" "ar @ [(?key, BDocument data)]" "bson_len data"]
    obtain n ar' len' where n: "n \<le> length iter"
      and b: "write_command_batch node iter (i + 1) (ar @ [(?key, BDocument data)]) (bson_len data)
         = Some (drop n iter, i + 1 + of_nat n, ar', n < length iter, len')"
      and m: "map snd ar' = map snd (ar @ [(?key, BDocument data)]) @ map snd (take n iter)"
      by blast
    show ?thesis
      by (rule exI [of _ "Suc n"]) (use ov False p v n b m in \<open>simp add: Let_def ac_simps\<close>)
  qed
qed


lemma of_nat_32_eq_0:
  "n < 2 ^ 32 \<Longrightarrow> ((of_nat n :: 32 word) = 0) = (n = 0)"
  by (simp add: unat_eq_0 [symmetric] unat_of_nat)

lemma fail_with_wire [simp]:
  "wire (fail_with e st) = wire st" "rounds (fail_with e st) = rounds st"
  by (simp_all add: fail_with_def)

lemma set_failed_wire [simp]:
  "wire (set_failed st) = wire st" "rounds (set_failed st) = rounds st"
  by (simp_all add: set_failed_def)

lemma write_command_round_slow:
  assumes slow: "mongoc_write_command_will_overflow 0 (bson_len (documents command))
           (n_documents command) (max_bson_obj_size node) (max_write_batch_size node) = Some True"
    and docs: "list_all is_document (map snd iter)"
    and ne: "iter \<noteq> []" and bound: "length iter < 2 ^ 32"
  shows "\<exists>n len' st1 c. n \<le> length iter
     \<and> write_command_round T wc command node database collection iter offset len st =
         Some (drop n iter, offset + of_nat n, len', n < length iter,
               0 < n \<and> succeeded T (length (wire st)), st1)
     \<and> (0 < n) = fits_command node (hd (map snd iter))
     \<and> wire st1 = (if n = 0 then wire st else wire st @ [c])
     \<and> sub_batch c = map snd (take n iter)"
proof -
  from slow have nz: "max_bson_obj_size node \<noteq> 0"
    by (auto simp: mongoc_write_command_will_overflow_def Let_def split: if_splits)
  from write_command_batch_result [OF docs nz, of 0 "[]" len]
  obtain n ar' len' where n: "n \<le> length iter"
    and b: "write_command_batch node iter 0 [] len =
         Some (drop n iter, of_nat n, ar', n < length iter, len')"
    and m: "map snd ar' = map snd (take n iter)"
    and f: "\<forall>k data rest. iter = (k, BDocument data) # rest \<longrightarrow>
          (0 < n) = (mongoc_write_command_will_overflow (bson_len [])
              (of_nat (length (bson_uint32_to_string 0)) + bson_len data + 2) 0
              (max_bson_obj_size node) (max_write_batch_size node) = Some False)"
    by auto
  from ne docs obtain k data rest where it: "iter = (k, BDocument data) # rest"
    by (cases iter; cases "snd (hd iter)") (auto simp: is_document_def)
  from f it have fit: "(0 < n) = fits_command node (hd (map snd iter))"
    by (simp add: fits_command_def)
  from n bound have zero: "((of_nat n :: 32 word) = 0) = (n = 0)"
    by (simp add: of_nat_32_eq_0)
  let ?cmd = "[(gCommandNames (cmd_type command), BUtf8 collection),
               (''writeConcern'', BDocument (WRITE_CONCERN_DOC wc)),
               (''ordered'', BBool (ordered command))] @ [(gCommandFields (cmd_type command), BArray ar')]"
  show ?thesis
  proof (cases "n = 0")
    case True
    show ?thesis
      apply (rule exI [of _ 0], rule exI [of _ len'])
      apply (rule exI [of _ "(fail_with (fst (too_large_error 0 len' (max_bson_obj_size node))) st)
                 \<lparr>rounds := rounds st @ [Round 0 True False]\<rparr>"])
      apply (rule exI [of _ "COMMAND database []"])
      using slow b True fit ne
      by (simp add: write_command_round_def Let_def)
  next
    case False
    obtain r reply s1 where cs: "client_command_simple T database ?cmd st = (r, reply, s1)"
      by (metis prod_cases3)
    note w = client_command_simple_wire [OF cs]
    let ?s2 = "if \<not> r then set_failed s1 else s1"
    show ?thesis
      apply (rule exI [of _ n], rule exI [of _ len'])
      apply (rule exI [of _ "(?s2\<lparr>write_result := mongoc_write_result_merge
                                (write_result ?s2) command reply offset\<rparr>)
                 \<lparr>rounds := rounds ?s2 @ [Round (of_nat n) (n < length iter) r]\<rparr>"])
      apply (rule exI [of _ "COMMAND database ?cmd"])
      using slow b False fit n zero cs w m
      by (simp add: write_command_round_def Let_def succeeded_def)
  qed
qed


lemma list_all_drop: "list_all P xs \<Longrightarrow> list_all P (drop n xs)"
  by (auto simp: list_all_iff dest: in_set_dropD)

lemma write_command_loop_sends:
  assumes slow: "mongoc_write_command_will_overflow 0 (bson_len (documents command))
           (n_documents command) (max_bson_obj_size node) (max_write_batch_size node) = Some True"
  shows "list_all is_document (map snd iter) \<Longrightarrow> iter \<noteq> [] \<Longrightarrow> length iter < 2 ^ 32 \<Longrightarrow>
     ordered command \<or> list_all (fits_command node) (map snd iter) \<Longrightarrow> length iter \<le> fuel \<Longrightarrow>
     \<exists>st' cmds. write_command_loop fuel T wc command node database collection iter offset len st
           = Finished st'
       \<and> wire st' = wire st @ cmds
       \<and> (cmds \<noteq> []) = fits_command node (hd (map snd iter))
       \<and> (case map sub_batch cmds of
             [] \<Rightarrow> True
           | b # bs \<Rightarrow> follows T (ordered command) node (length (wire st)) (map snd iter) b bs)"
proof (induction fuel arbitrary: iter offset len st)
  case 0
  then show ?case by simp
next
  case (Suc fuel)
  let ?k = "length (wire st)"
  let ?items = "map snd iter"
  from write_command_round_slow [OF slow Suc.prems(1,2,3), of T wc database collection offset len st]
  obtain n len' st1 c where n: "n \<le> length iter"
    and r: "write_command_round T wc command node database collection iter offset len st =
         Some (drop n iter, offset + of_nat n, len', n < length iter,
               0 < n \<and> succeeded T ?k, st1)"
    and fit: "(0 < n) = fits_command node (hd ?items)"
    and w: "wire st1 = (if n = 0 then wire st else wire st @ [c])"
    and sb: "sub_batch c = map snd (take n iter)"
    by blast
  show ?case
  proof (cases "n = 0")
    case True
    with fit have nofit: "\<not> fits_command node (hd ?items)" by simp
    have ord: "ordered command"
    proof (rule ccontr)
      assume "\<not> ordered command"
      with Suc.prems(4) have "list_all (fits_command node) ?items" by simp
      with Suc.prems(2) have "fits_command node (hd ?items)"
        by (cases iter) simp_all
      with nofit show False ..
    qed
    show ?thesis
      by (rule exI [of _ st1], rule exI [of _ "[]"]) (use r True ord w nofit in simp)
  next
    case False
    then have pos: "0 < n" by simp
    let ?b = "take n ?items"
    let ?rest = "drop n ?items"
    have b: "sub_batch c = ?b" "?b \<noteq> []" "length ?b = n"
      using sb n pos Suc.prems(2) by (simp_all add: take_map)
    have w1: "wire st1 = wire st @ [c]" using w False by simp
    show ?thesis
    proof (cases "n < length iter \<and> (succeeded T ?k \<or> \<not> ordered command)")
      case True
      let ?iter' = "drop n iter"
      have p1: "list_all is_document (map snd ?iter')"
        using list_all_drop [OF Suc.prems(1), of n] by (simp add: drop_map)
      have p2: "?iter' \<noteq> []" using True by simp
      have p3: "length ?iter' < 2 ^ 32" using Suc.prems(3) by simp
      have p4: "ordered command \<or> list_all (fits_command node) (map snd ?iter')"
      proof (cases "ordered command")
        case True
        then show ?thesis ..
      next
        case False
        with Suc.prems(4) have "list_all (fits_command node) (map snd iter)" by simp
        from list_all_drop [OF this, of n] show ?thesis by (simp add: drop_map)
      qed
      have p5: "length ?iter' \<le> fuel" using Suc.prems(5) pos by simp
      from Suc.IH [OF p1 p2 p3 p4 p5, of "offset + of_nat n" len' st1]
      obtain st' cmds where
        run: "write_command_loop fuel T wc command node database collection ?iter'
               (offset + of_nat n) len' st1 = Finished st'"
        and ws: "wire st' = wire st1 @ cmds"
        and ne: "(cmds \<noteq> []) = fits_command node (hd (map snd ?iter'))"
        and fo: "(case map sub_batch cmds of
             [] \<Rightarrow> True
           | b # bs \<Rightarrow> follows T (ordered command) node (length (wire st1)) (map snd ?iter') b bs)"
        by blast
      obtain v vs where rest: "?rest = v # vs"
        using p2 by (cases ?rest) simp_all
      then have hd: "hd (map snd ?iter') = v" by (simp add: drop_map)
      have "follows T (ordered command) node ?k ?items ?b (map sub_batch cmds)"
      proof (cases cmds)
        case Nil
        with ne hd have "\<not> fits_command node v" by simp
        with Nil b rest show ?thesis by (simp add: another_def)
      next
        case (Cons c' cs)
        with ne hd have "fits_command node v" by simp
        moreover from fo Cons w1 have
          "follows T (ordered command) node (Suc ?k) ?rest (sub_batch c') (map sub_batch cs)"
          by (simp add: drop_map)
        ultimately show ?thesis
          using Cons b rest True by (simp add: another_def)
      qed
      then show ?thesis
        by - (rule exI [of _ st'], rule exI [of _ "c # cmds"],
              use r True pos run ws w1 fit b in simp)
    next
      case False
      have "\<not> another T (ordered command) node ?k ?rest"
      proof (cases ?rest)
        case Nil
        then show ?thesis by (simp add: another_def)
      next
        case (Cons v vs)
        then have "n < length iter" by (cases "n < length iter") simp_all
        with False Cons show ?thesis by (simp add: another_def)
      qed
      then have "follows T (ordered command) node ?k ?items ?b []"
        using b by simp
      then show ?thesis
        by - (rule exI [of _ st1], rule exI [of _ "[c]"],
              use r False pos w1 fit b in auto)
    qed
  qed
qed


lemma follows_ordered:
  "follows T True node k items b bs \<Longrightarrow> \<forall>j < length bs. succeeded T (k + j)"
proof (induction bs arbitrary: k items b)
  case Nil
  then show ?case by simp
next
  case (Cons b' bs)
  from Cons.prems have s: "succeeded T k"
    and f: "follows T True node (Suc k) (drop (length b) items) b' bs"
    by (auto simp: another_def split: list.splits)
  from Cons.IH [OF f] s show ?case
    by (auto simp: less_Suc_eq_0_disj)
qed

text \<open>An ordered insert whose second document fits no command of the example node.\<close>

definition large_insert_example :: mongoc_write_command_t where
  "large_insert_example =
     \<lparr>cmd_type = MONGOC_WRITE_COMMAND_INSERT,
      documents = [(''0'', BDocument [(''a'', BInt32 1)]),
                   (''1'', BDocument [(''a'', BUtf8 (replicate 17000 CHR ''x''))])],
      n_documents = 2, ordered = True, allow_bulk_op_insert = True, multi = False\<rparr>"

text \<open>
  C9, as amended. On the command path (the node is valid and the write is not handed to a
  legacy executor), for a buffer of documents and a node whose maximal object size is not
  0, when the buffer is ordered or every item fits a command on its own, the executor
  returns, and the commands it sent are as follows. After each command sent, another
  sub-batch is sent if and only if items remain (\<open>has_more\<close>), the send succeeded or the
  buffer is unordered, and the next item fits a command on its own; each sub-batch is a
  non-empty run of the items, in order; and nothing at all is sent only if the first item
  does not fit. On an ordered buffer every command but the last was answered
  successfully: once a send fails, no further sub-batch is sent.
\<close>

theorem command_path_sub_batches:
  assumes "min_wire_version node \<noteq> - 1" and "\<not> (min_wire_version node = 0 \<and> \<not> needs_gle wc)"
    and "command_buffer command" and "max_bson_obj_size node \<noteq> 0"
    and "ordered command \<or> list_all (fits_command node) (map snd (documents command))"
    and "length (documents command) \<le> fuel"
  shows "\<exists>st' cmds.
      mongoc_write_command fuel bson_validate T wc command node database collection offset st
        = Finished st'
    \<and> wire st' = wire st @ cmds
    \<and> sub_batches T (ordered command) node (length (wire st)) (map snd (documents command))
         (map sub_batch cmds)
    \<and> (ordered command \<longrightarrow> (\<forall>j. Suc j < length cmds \<longrightarrow> succeeded T (length (wire st) + j)))"
proof -
  let ?docs = "documents command"
  let ?loop = "write_command_loop fuel T wc command node database collection ?docs offset 0 st"
  from assms(3) have nd: "n_documents command \<noteq> 0" and ne: "?docs \<noteq> []"
    and bound: "length ?docs < 2 ^ 32" and docs: "list_all is_document (map snd ?docs)"
    by (simp_all add: command_buffer_def)
  have eq: "mongoc_write_command fuel bson_validate T wc command node database collection offset st
      = ?loop"
    using nd ne assms(1,2) by (auto simp: mongoc_write_command_def)
  have "\<exists>ov. mongoc_write_command_will_overflow 0 (bson_len ?docs)
           (n_documents command) (max_bson_obj_size node) (max_write_batch_size node) = Some ov"
    using assms(4) by (auto simp: mongoc_write_command_will_overflow_def Let_def)
  then obtain ov where ov: "mongoc_write_command_will_overflow 0 (bson_len ?docs)
           (n_documents command) (max_bson_obj_size node) (max_write_batch_size node) = Some ov" ..
  have "\<exists>st' cmds. ?loop = Finished st' \<and> wire st' = wire st @ cmds
    \<and> sub_batches T (ordered command) node (length (wire st)) (map snd ?docs) (map sub_batch cmds)"
  proof (cases ov)
    case True
    with ov have slow: "mongoc_write_command_will_overflow 0 (bson_len ?docs)
           (n_documents command) (max_bson_obj_size node) (max_write_batch_size node) = Some True"
      by simp
    from write_command_loop_sends [OF slow docs ne bound assms(5,6),
        of T wc database collection offset 0 st]
    obtain st' cmds where run: "?loop = Finished st'" and ws: "wire st' = wire st @ cmds"
      and fi: "(cmds \<noteq> []) = fits_command node (hd (map snd ?docs))"
      and fo: "(case map sub_batch cmds of
             [] \<Rightarrow> True
           | b # bs \<Rightarrow> follows T (ordered command) node (length (wire st)) (map snd ?docs) b bs)"
      by blast
    have "sub_batches T (ordered command) node (length (wire st)) (map snd ?docs)
            (map sub_batch cmds)"
      using fi fo ne by (cases cmds; cases ?docs) (simp_all add: sub_batches_def)
    with run ws show ?thesis by blast
  next
    case False
    let ?cmd = "[(gCommandNames (cmd_type command), BUtf8 collection),
               (''writeConcern'', BDocument (WRITE_CONCERN_DOC wc)),
               (''ordered'', BBool (ordered command))]
              @ [(gCommandFields (cmd_type command), BArray ?docs)]"
    obtain r reply s1 where cs: "client_command_simple T database ?cmd st = (r, reply, s1)"
      by (metis prod_cases3)
    note w = client_command_simple_wire [OF cs]
    let ?s2 = "if \<not> r then set_failed s1 else s1"
    let ?st' = "(?s2\<lparr>write_result := mongoc_write_result_merge
                                (write_result ?s2) command reply offset\<rparr>)
                 \<lparr>rounds := rounds ?s2 @ [Round (n_documents command) False r]\<rparr>"
    from assms(6) ne obtain fuel' where fuel: "fuel = Suc fuel'"
      by (cases fuel) simp_all
    have run: "?loop = Finished ?st'"
      unfolding fuel using ov False nd cs
      by (simp add: write_command_round_def Let_def)
    have ws: "wire ?st' = wire st @ [COMMAND database ?cmd]"
      using w by simp
    have "sub_batches T (ordered command) node (length (wire st)) (map snd ?docs)
            (map sub_batch [COMMAND database ?cmd])"
      using ne by (simp add: sub_batches_def another_def)
    with run ws show ?thesis by blast
  qed
  then obtain st' cmds where run: "?loop = Finished st'" and ws: "wire st' = wire st @ cmds"
    and sb: "sub_batches T (ordered command) node (length (wire st)) (map snd ?docs)
               (map sub_batch cmds)"
    by blast
  have "\<forall>j. Suc j < length cmds \<longrightarrow> succeeded T (length (wire st) + j)" if ord: "ordered command"
  proof (cases cmds)
    case Nil
    then show ?thesis by simp
  next
    case (Cons c cs)
    with sb ord have "follows T True node (length (wire st)) (map snd ?docs) (sub_batch c)
        (map sub_batch cs)"
      by (simp add: sub_batches_def)
    from follows_ordered [OF this] Cons show ?thesis by simp
  qed
  with run ws sb show ?thesis
    unfolding eq by blast
qed

theorem command_path_sub_batches_witness:
  "follows transport_example True node_example 0
     [BDocument [(''a'', BUtf8 ''0123456789abcdef'')], BDocument [(''a'', BInt32 1)]]
     [BDocument [(''a'', BUtf8 ''0123456789abcdef'')]] [[BDocument [(''a'', BInt32 1)]]]
   \<and> succeeded transport_example 0"
proof -
  have run: "mongoc_write_command (Suc (Suc 0)) (\<lambda>d. True) transport_example write_concern_example
      (two_inserts_example True) node_example ''db'' ''c'' 0 exec_state_init =
    Finished two_inserts_final_example"
    unfolding two_inserts_final_example_def
    by (simp add: exec_defs exec_example_defs merge_defs eval_defs)
  have hyps: "min_wire_version node_example \<noteq> - 1"
    "\<not> (min_wire_version node_example = 0 \<and> \<not> needs_gle write_concern_example)"
    "command_buffer (two_inserts_example True)"
    "max_bson_obj_size node_example \<noteq> 0"
    "ordered (two_inserts_example True)
     \<or> list_all (fits_command node_example) (map snd (documents (two_inserts_example True)))"
    "length (documents (two_inserts_example True)) \<le> Suc (Suc 0)"
    by (simp_all add: exec_example_defs command_buffer_def is_document_def)
  from command_path_sub_batches [OF hyps, of "\<lambda>d. True" transport_example "''db''" "''c''" 0
      exec_state_init]
  obtain st' cmds where
    f: "mongoc_write_command (Suc (Suc 0)) (\<lambda>d. True) transport_example write_concern_example
      (two_inserts_example True) node_example ''db'' ''c'' 0 exec_state_init = Finished st'"
    and ws: "wire st' = wire exec_state_init @ cmds"
    and sb: "sub_batches transport_example (ordered (two_inserts_example True)) node_example
         (length (wire exec_state_init)) (map snd (documents (two_inserts_example True)))
         (map sub_batch cmds)"
    and od: "ordered (two_inserts_example True) \<longrightarrow>
         (\<forall>j. Suc j < length cmds \<longrightarrow> succeeded transport_example (length (wire exec_state_init) + j))"
    by blast
  from f run have st': "st' = two_inserts_final_example" by simp
  from ws st' have cmds: "cmds = wire two_inserts_final_example"
    by (simp add: exec_state_init_def)
  from sb have "follows transport_example True node_example 0
     [BDocument [(''a'', BUtf8 ''0123456789abcdef'')], BDocument [(''a'', BInt32 1)]]
     [BDocument [(''a'', BUtf8 ''0123456789abcdef'')]] [[BDocument [(''a'', BInt32 1)]]]"
    unfolding cmds
    by (simp add: two_inserts_final_example_def two_inserts_example_def exec_state_init_def
        sub_batches_def)
  moreover from od [rule_format, of 0] have "succeeded transport_example 0"
    unfolding cmds
    by (simp add: two_inserts_final_example_def two_inserts_example_def exec_state_init_def)
  ultimately show ?thesis ..
qed

text \<open>
  The claim as stated fails: \<open>has_more\<close> set and a successful send do not suffice for
  another sub-batch. On the ordered buffer below the first command carries the first
  document and is answered successfully, and \<open>has_more\<close> is set; the second pass finds
  that the second document fits no command, sends nothing, records the too-large error and
  returns. One command is on the wire.
\<close>

theorem command_path_continuation_counterexample:
  "\<exists>st'. mongoc_write_command (Suc (Suc 0)) (\<lambda>d. True) transport_example write_concern_example
            large_insert_example node_example ''db'' ''c'' 0 exec_state_init = Finished st'
      \<and> wire st' =
          [COMMAND ''db''
            [(''insert'', BUtf8 ''c''), (''writeConcern'', BDocument [(''w'', BInt32 1)]),
             (''ordered'', BBool True),
             (''documents'', BArray [(''0'', BDocument [(''a'', BInt32 1)])])]]
      \<and> rounds st' = [Round 1 True True, Round 0 True False]
      \<and> succeeded transport_example 0
      \<and> ordered large_insert_example"
  by (simp add: mongoc_write_command_def write_command_round_def
        mongoc_write_command_will_overflow_def client_command_simple_def fail_with_def
        set_failed_def gCommandNames_def gCommandFields_def WRITE_CONCERN_DOC_def bson_len_def
        word_sless_alt exec_example_defs merge_defs eval_defs large_insert_example_def
        succeeded_def)

section \<open>Oversize documents on the legacy insert path\<close>

text \<open>
  The documents of a buffer, in order; whether a document passes the executor's size test
  (the unsigned comparison the code makes); the documents that a run has handed to the
  transport in \<^verbatim>\<open>OP_INSERT\<close> frames, in order; the write error that the executor
  synthesizes for the document at \<open>index\<close>; and the values of the accumulator's
  \<open>writeErrors\<close> array.
\<close>

definition buffer_documents :: "bson \<Rightarrow> bson list" where
  "buffer_documents entries =
     concat (map (\<lambda>(k, v). case v of BDocument d \<Rightarrow> [d] | _ \<Rightarrow> []) entries)"


definition sent_documents :: "exec_state \<Rightarrow> bson list" where
  "sent_documents st =
     concat (map (\<lambda>frame. case frame of OP_INSERT ns flag docs \<Rightarrow> docs | _ \<Rightarrow> []) (wire st))"



lemma buffer_documents_simps [simp]:
  "buffer_documents [] = []"
  "buffer_documents ((k, BDocument d) # rest) = d # buffer_documents rest"
  "buffer_documents (a @ b) = buffer_documents a @ buffer_documents b"
  by (simp_all add: buffer_documents_def)




lemma sent_documents_simps [simp]:
  "sent_documents (st\<lparr>write_result := r\<rparr>) = sent_documents st"
  "sent_documents (st\<lparr>n_recv := n\<rparr>) = sent_documents st"
  "sent_documents (st\<lparr>wire := wire st @ [OP_INSERT ns flag docs]\<rparr>) = sent_documents st @ docs"
  by (simp_all add: sent_documents_def)



























end
